theory Spec2Isabelle
  imports Main "HOL-Library.Sublist"
begin

section \<open>Data model\<close>

text \<open>
  Instants (\<^verbatim>\<open>time.Time\<close>, \<^verbatim>\<open>metav1.Time\<close>) are integers counting nanoseconds from a fixed
  epoch; durations (\<^verbatim>\<open>time.Duration\<close>, \<^verbatim>\<open>util.Duration\<close>) are integers counting nanoseconds,
  an \<^verbatim>\<open>int64\<close> in Go. The bounds of \<^verbatim>\<open>int64\<close> are written out wherever the Go library
  saturates.
\<close>

type_synonym Time = int
type_synonym Duration = int

definition maxDuration :: Duration where
  "maxDuration = 2 ^ 63 - 1"

definition minDuration :: Duration where
  "minDuration = - (2 ^ 63)"

definition Second :: Duration where
  "Second = 1000000000"

definition Minute :: Duration where
  "Minute = 60 * Second"

definition Hour :: Duration where
  "Hour = 60 * Minute"

datatype ConditionStatus = ConditionTrue | ConditionFalse | ConditionUnknown

text \<open>\<^verbatim>\<open>metav1.Condition\<close>.\<close>

record Condition =
  cond_Type :: string
  cond_Status :: ConditionStatus
  cond_LastTransitionTime :: Time
  cond_Reason :: string
  cond_Message :: string

text \<open>
  Modelled from the spec: the phase type \<^verbatim>\<open>workspacev1.WorkspacePhase\<close> is declared outside the
  sources at hand. It is a string type whose values are the seven phases of the state machine
  and the empty string of a workspace that has no phase yet.
\<close>

datatype WorkspacePhase =
    WorkspacePhaseEmpty
  | WorkspacePhasePending
  | WorkspacePhaseCreating
  | WorkspacePhaseInitializing
  | WorkspacePhaseRunning
  | WorkspacePhaseStopping
  | WorkspacePhaseStopped
  | WorkspacePhaseUnknown

record WorkspaceRuntimeStatus =
  rt_NodeName :: string
  rt_HostIP :: string
  rt_PodIP :: string
  rt_PodName :: string

text \<open>
  The workspace object, with the fields the reconcilers read or write: its name and creation
  instant (\<^verbatim>\<open>ObjectMeta\<close>), the custom timeout \<^verbatim>\<open>Spec.Timeout.Time\<close> (a pointer, so optional),
  and \<^verbatim>\<open>Status\<close> (phase, conditions, headless flag, the runtime pointer).
\<close>

record Workspace =
  ws_Name :: string
  ws_CreationTimestamp :: Time
  spec_Timeout :: "Duration option"
  status_Phase :: WorkspacePhase
  status_Conditions :: "Condition list"
  status_Headless :: bool
  status_Runtime :: "WorkspaceRuntimeStatus option"

text \<open>
  \<^verbatim>\<open>corev1.PodPhase\<close> is a string type too; \<open>PodPhaseOther\<close> stands for every value that is
  none of the five named ones (the empty phase of a fresh pod among them).
\<close>

datatype PodPhase = PodPending | PodRunning | PodSucceeded | PodFailed | PodUnknown | PodPhaseOther

record ContainerStateWaiting =
  wait_Reason :: string
  wait_Message :: string

record ContainerStateTerminated =
  term_ExitCode :: int
  term_Reason :: string
  term_Message :: string

record ContainerState =
  st_Waiting :: "ContainerStateWaiting option"
  st_Running :: bool
  st_Terminated :: "ContainerStateTerminated option"

record ContainerStatus =
  cs_Name :: string
  cs_Ready :: bool
  cs_State :: ContainerState
  cs_LastTerminationState :: ContainerState

record Pod =
  pod_Name :: string
  pod_DeletionTimestamp :: "Time option"
  pod_Finalizers :: "string list"
  pod_NodeName :: string
  pod_Phase :: PodPhase
  pod_Reason :: string
  pod_Message :: string
  pod_HostIP :: string
  pod_PodIP :: string
  pod_ContainerStatuses :: "ContainerStatus list"

text \<open>
  Modelled from the spec: \<^verbatim>\<open>config.WorkspaceTimeoutConfiguration\<close> and \<^verbatim>\<open>config.Configuration\<close>
  are declared outside the sources at hand. The timeout configuration holds one duration per
  policy row, the configuration holds the timeouts and the heartbeat interval.
\<close>

record WorkspaceTimeoutConfiguration =
  Initialization :: Duration
  TotalStartup :: Duration
  RegularWorkspace :: Duration
  HeadlessWorkspace :: Duration
  MaxLifetime :: Duration
  AfterClose :: Duration
  Stopping :: Duration
  ContentFinalization :: Duration

record Configuration =
  Timeouts :: WorkspaceTimeoutConfiguration
  HeartbeatInterval :: Duration

section \<open>Condition set\<close>

text \<open>
  Modelled from the spec: the names of the condition types
  (\<^verbatim>\<open>workspacev1.WorkspaceConditionFailed\<close> and its siblings) are declared outside the sources at
  hand; the spec names them \<^verbatim>\<open>Deployed\<close>, \<^verbatim>\<open>Failed\<close>, \<^verbatim>\<open>Timeout\<close>, \<^verbatim>\<open>BackupComplete\<close>,
  \<^verbatim>\<open>BackupFailure\<close>, \<^verbatim>\<open>ContentReady\<close>, \<^verbatim>\<open>Closed\<close> and \<^verbatim>\<open>UserActivity\<close>.
\<close>

definition WorkspaceConditionDeployed :: string where
  "WorkspaceConditionDeployed = ''Deployed''"

definition WorkspaceConditionFailed :: string where
  "WorkspaceConditionFailed = ''Failed''"

definition WorkspaceConditionTimeout :: string where
  "WorkspaceConditionTimeout = ''Timeout''"

definition WorkspaceConditionBackupComplete :: string where
  "WorkspaceConditionBackupComplete = ''BackupComplete''"

definition WorkspaceConditionBackupFailure :: string where
  "WorkspaceConditionBackupFailure = ''BackupFailure''"

definition WorkspaceConditionContentReady :: string where
  "WorkspaceConditionContentReady = ''ContentReady''"

definition WorkspaceConditionClosed :: string where
  "WorkspaceConditionClosed = ''Closed''"

definition WorkspaceConditionUserActivity :: string where
  "WorkspaceConditionUserActivity = ''UserActivity''"

text \<open>
  Modelled from the spec: \<^verbatim>\<open>conditionPresentAndTrue\<close> is called by the reconcilers and defined
  outside the sources at hand. In the spec's words a condition is "present with status=True":
  the condition set holds a condition of that type whose status is \<open>True\<close>.
\<close>

definition conditionPresentAndTrue :: "Condition list \<Rightarrow> string \<Rightarrow> bool" where
  "conditionPresentAndTrue cond tpe =
     list_ex (\<lambda>c. cond_Type c = tpe \<and> cond_Status c = ConditionTrue) cond"

text \<open>
  Modelled from the spec: \<^verbatim>\<open>conditionWithStatusAndReson\<close> is defined outside the sources at
  hand. The spec reads its one use as "\<^verbatim>\<open>ContentReady=False\<close> with reason
  \<^verbatim>\<open>InitializationFailure\<close> is present": a condition of that type, with the status the flag
  stands for and with that reason.
\<close>

definition conditionWithStatusAndReson :: "Condition list \<Rightarrow> string \<Rightarrow> bool \<Rightarrow> string \<Rightarrow> bool" where
  "conditionWithStatusAndReson cond tpe status reason =
     list_ex (\<lambda>c. cond_Type c = tpe
                 \<and> cond_Status c = (if status then ConditionTrue else ConditionFalse)
                 \<and> cond_Reason c = reason) cond"

text \<open>
  Modelled from the spec: \<^verbatim>\<open>AddUniqueCondition\<close> is defined outside the sources at hand. The
  spec describes it as an idempotent upsert on an ordered set keyed by type: a condition whose
  type is new is appended; one whose type exists with the same status and message changes
  nothing (no new timestamp); otherwise the stored condition of that type is replaced.
\<close>

fun AddUniqueCondition :: "Condition list \<Rightarrow> Condition \<Rightarrow> Condition list" where
  "AddUniqueCondition [] cond = [cond]"
| "AddUniqueCondition (c # conds) cond =
     (if cond_Type c = cond_Type cond then
        (if cond_Status c = cond_Status cond \<and> cond_Message c = cond_Message cond
         then c # conds else cond # conds)
      else c # AddUniqueCondition conds cond)"

section \<open>Timeout policy\<close>

text \<open>
  \<^verbatim>\<open>time.Since(start)\<close> is \<^verbatim>\<open>time.Now().Sub(start)\<close>: the difference of the two instants,
  saturated to the range of a \<^verbatim>\<open>Duration\<close>. The current instant is the parameter \<open>now\<close>.
\<close>

definition time_Since :: "Time \<Rightarrow> Time \<Rightarrow> Duration" where
  "time_Since now t =
     (let d = now - t in
      if maxDuration < d then maxDuration else if d < minDuration then minDuration else d)"

text \<open>Go's integer division and remainder truncate toward zero.\<close>

definition go_quot :: "int \<Rightarrow> int \<Rightarrow> int" where
  "go_quot a b = sgn a * sgn b * (\<bar>a\<bar> div \<bar>b\<bar>)"

definition go_rem :: "int \<Rightarrow> int \<Rightarrow> int" where
  "go_rem a b = a - b * go_quot a b"

text \<open>
  \<^verbatim>\<open>Duration.Round(m)\<close> of the Go library: the nearest multiple of \<open>m\<close>, halfway values away
  from zero, the extreme duration where the rounded value leaves \<^verbatim>\<open>int64\<close>.
\<close>

definition duration_Round :: "Duration \<Rightarrow> Duration \<Rightarrow> Duration" where
  "duration_Round d m =
     (if m \<le> 0 then d
      else let r = go_rem d m in
        if d < 0 then
          (let r' = - r in
           if r' + r' < m then d + r'
           else let d1 = d - m + r' in if minDuration \<le> d1 then d1 else minDuration)
        else
          (if r + r < m then d - r
           else let d1 = d + m - r in if d1 \<le> maxDuration then d1 else maxDuration))"

fun digits :: "nat \<Rightarrow> string" where
  "digits n = (if n < 10 then [char_of (48 + n)] else digits (n div 10) @ [char_of (48 + n mod 10)])"

declare digits.simps [simp del]

text \<open>The verbs \<^verbatim>\<open>%d\<close> and \<^verbatim>\<open>%02d\<close> of \<^verbatim>\<open>fmt.Sprintf\<close> on an integer.\<close>

definition fmt_d :: "int \<Rightarrow> string" where
  "fmt_d n = (if n < 0 then ''-'' @ digits (nat (- n)) else digits (nat n))"

definition fmt_02d :: "int \<Rightarrow> string" where
  "fmt_02d n = (if 0 \<le> n \<and> n < 10 then ''0'' @ fmt_d n else fmt_d n)"

definition formatDuration :: "Duration \<Rightarrow> string" where
  "formatDuration d0 =
     (let d = duration_Round d0 Minute;
          h = go_quot d Hour;
          d' = d - h * Hour;
          m = go_quot d' Minute
      in fmt_02d h @ ''h'' @ fmt_02d m @ ''m'')"

definition activityInit :: string where
  "activityInit = ''initialization''"

definition activityStartup :: string where
  "activityStartup = ''startup''"

definition activityCreatingContainers :: string where
  "activityCreatingContainers = ''creating containers''"

definition activityRunningHeadless :: string where
  "activityRunningHeadless = ''running the headless workspace''"

definition activityNone :: string where
  "activityNone = ''period of inactivity''"

definition activityMaxLifetime :: string where
  "activityMaxLifetime = ''maximum lifetime''"

definition activityClosed :: string where
  "activityClosed = ''after being closed''"

definition activityStopping :: string where
  "activityStopping = ''stopping''"

definition activityBackup :: string where
  "activityBackup = ''backup''"

text \<open>The closure \<^verbatim>\<open>decide\<close> of \<^verbatim>\<open>isWorkspaceTimedOut\<close>; the empty string says "not timed out".\<close>

definition decide :: "Time \<Rightarrow> Time \<Rightarrow> Duration \<Rightarrow> string \<Rightarrow> string" where
  "decide now start timeout activity =
     (let td = timeout;
          inactivity = time_Since now start
      in if inactivity < td then []
         else ''workspace timed out after '' @ activity @ '' ('' @ formatDuration inactivity
              @ '') took longer than '' @ formatDuration td)"

definition isPodBeingDeleted :: "Pod \<Rightarrow> bool" where
  "isPodBeingDeleted pod = (pod_DeletionTimestamp pod \<noteq> None)"

fun getWorkspaceActivityIn :: "Condition list \<Rightarrow> Time option" where
  "getWorkspaceActivityIn [] = None"
| "getWorkspaceActivityIn (c # cs) =
     (if cond_Type c = WorkspaceConditionUserActivity then Some (cond_LastTransitionTime c)
      else getWorkspaceActivityIn cs)"

definition getWorkspaceActivity :: "Workspace \<Rightarrow> Time option" where
  "getWorkspaceActivity ws = getWorkspaceActivityIn (status_Conditions ws)"

text \<open>
  \<^verbatim>\<open>isWorkspaceTimedOut\<close>. The pod is a pointer that only the \<^verbatim>\<open>Stopping\<close> branch dereferences:
  the result \<open>None\<close> is the panic of that branch on a nil pod. The error the function returns
  beside the reason is nil on every path and is left out. In the \<^verbatim>\<open>Running\<close> branch \<open>finish\<close>
  is the tail shared by the headless path and the regular one: the custom timeout, when set,
  replaces the timeout chosen so far, then \<^verbatim>\<open>decide\<close> runs. The deletion instant is read only
  where \<^verbatim>\<open>isPodBeingDeleted\<close> holds.
\<close>

definition isWorkspaceTimedOut ::
  "Time \<Rightarrow> Workspace \<Rightarrow> Pod option \<Rightarrow> WorkspaceTimeoutConfiguration \<Rightarrow> string option" where
  "isWorkspaceTimedOut now ws pod timeouts =
     (let phase = status_Phase ws;
          start = ws_CreationTimestamp ws;
          lastActivity = getWorkspaceActivity ws;
          isClosed = conditionPresentAndTrue (status_Conditions ws) WorkspaceConditionClosed
      in case phase of
           WorkspacePhasePending \<Rightarrow> Some (decide now start (Initialization timeouts) activityInit)
         | WorkspacePhaseInitializing \<Rightarrow> Some (decide now start (TotalStartup timeouts) activityStartup)
         | WorkspacePhaseCreating \<Rightarrow>
             Some (decide now start (TotalStartup timeouts) activityCreatingContainers)
         | WorkspacePhaseRunning \<Rightarrow>
             (let msg = decide now start (MaxLifetime timeouts) activityMaxLifetime in
              if msg \<noteq> [] then Some msg
              else
                (let finish = (\<lambda>lastActivity timeout activity.
                       decide now lastActivity
                         (case spec_Timeout ws of Some ctv \<Rightarrow> ctv | None \<Rightarrow> timeout) activity)
                 in if status_Headless ws then
                      Some (finish start (HeadlessWorkspace timeouts) activityRunningHeadless)
                    else
                      (case lastActivity of
                         None \<Rightarrow> Some (decide now start (TotalStartup timeouts) activityNone)
                       | Some la \<Rightarrow>
                           if isClosed then Some (decide now la (AfterClose timeouts) activityClosed)
                           else Some (finish la (RegularWorkspace timeouts) activityNone))))
         | WorkspacePhaseStopping \<Rightarrow>
             (case pod of
                None \<Rightarrow> None
              | Some p \<Rightarrow>
                  if isPodBeingDeleted p
                     \<and> conditionPresentAndTrue (status_Conditions ws) WorkspaceConditionBackupComplete
                  then Some (decide now (the (pod_DeletionTimestamp p)) (ContentFinalization timeouts)
                               activityBackup)
                  else if \<not> isPodBeingDeleted p then Some []
                  else Some (decide now (the (pod_DeletionTimestamp p)) (Stopping timeouts)
                               activityStopping))
         | _ \<Rightarrow> Some [])"


section \<open>Timeout reconciler\<close>

record TimeoutReconciler =
  Config :: Configuration
  reconcileInterval :: Duration

text \<open>\<^verbatim>\<open>NewTimeoutReconciler\<close>; the error it returns beside the reconciler is nil.\<close>

definition NewTimeoutReconciler :: "Configuration \<Rightarrow> TimeoutReconciler" where
  "NewTimeoutReconciler cfg =
     (let reconcileInterval0 = HeartbeatInterval cfg;
          reconcileInterval1 = go_quot reconcileInterval0 2
      in \<lparr> Config = cfg, reconcileInterval = reconcileInterval1 \<rparr>)"

text \<open>
  What \<^verbatim>\<open>r.Get\<close> answers: the workspace, a not-found error, or another error (with its text).
\<close>

datatype GetResult = GetOK Workspace | GetNotFound | GetError string

text \<open>\<^verbatim>\<open>ctrl.Result\<close>.\<close>

record Result =
  Requeue :: bool
  RequeueAfter :: Duration

definition emptyResult :: Result where
  "emptyResult = \<lparr> Requeue = False, RequeueAfter = 0 \<rparr>"

text \<open>
  What one pass of \<^verbatim>\<open>Reconcile\<close> yields: the result and the error it returns, and the workspace
  it handed to \<^verbatim>\<open>Status().Update\<close>, if it called it.
\<close>

record ReconcileOutcome =
  out_result :: Result
  out_err :: "string option"
  out_updated :: "Workspace option"

text \<open>
  \<^verbatim>\<open>TimeoutReconciler.Reconcile\<close>. The pass reads the workspace (\<open>get\<close> is the answer of
  \<^verbatim>\<open>r.Get\<close>), asks the timeout policy, and writes the \<^verbatim>\<open>Timeout\<close> condition through
  \<^verbatim>\<open>Status().Update\<close> (\<open>update\<close> gives the error of that call). The policy is called here with
  the reconciler's activity store, a signature the sources at hand do not define, so it is the
  parameter \<open>policy\<close>, answering a reason and an error. The deferred function runs on every
  return after a successful read and sets \<^verbatim>\<open>RequeueAfter\<close> of the named result.
\<close>

definition Reconcile ::
  "TimeoutReconciler \<Rightarrow> Time \<Rightarrow> GetResult \<Rightarrow> (Workspace \<Rightarrow> string \<times> string option)
     \<Rightarrow> (Workspace \<Rightarrow> string option) \<Rightarrow> ReconcileOutcome" where
  "Reconcile r now get policy update =
     (case get of
        GetNotFound \<Rightarrow> \<lparr> out_result = emptyResult, out_err = None, out_updated = None \<rparr>
      | GetError e \<Rightarrow> \<lparr> out_result = emptyResult, out_err = Some e, out_updated = None \<rparr>
      | GetOK workspace \<Rightarrow>
          (let out =
             (case policy workspace of
                (timedout, Some e) \<Rightarrow>
                  \<lparr> out_result = emptyResult, out_err = Some e, out_updated = None \<rparr>
              | (timedout, None) \<Rightarrow>
                  if timedout = [] then
                    \<lparr> out_result = emptyResult, out_err = None, out_updated = None \<rparr>
                  else if conditionPresentAndTrue (status_Conditions workspace)
                            WorkspaceConditionTimeout then
                    \<lparr> out_result = emptyResult, out_err = None, out_updated = None \<rparr>
                  else
                    (let workspace' = workspace\<lparr> status_Conditions :=
                           AddUniqueCondition (status_Conditions workspace)
                             \<lparr> cond_Type = WorkspaceConditionTimeout,
                               cond_Status = ConditionTrue,
                               cond_LastTransitionTime = now,
                               cond_Reason = [],
                               cond_Message = timedout \<rparr> \<rparr>
                     in \<lparr> out_result = emptyResult, out_err = update workspace',
                          out_updated = Some workspace' \<rparr>))
           in out\<lparr> out_result := (out_result out)\<lparr> RequeueAfter := reconcileInterval r \<rparr> \<rparr>))"

section \<open>Failure extraction\<close>

definition containerKilledExitCode :: int where
  "containerKilledExitCode = 137"

definition containerUnknownExitCode :: int where
  "containerUnknownExitCode = 255"

text \<open>The record \<^verbatim>\<open>msg\<close> that \<^verbatim>\<open>extractFailureFromLogs\<close> decodes each line into.\<close>

record LogMessage =
  msg_Error :: string
  msg_Message :: string

definition emptyLogMessage :: LogMessage where
  "emptyLogMessage = \<lparr> msg_Error = [], msg_Message = [] \<rparr>"

definition newline :: char where
  "newline = CHR 0x0A"

text \<open>
  \<^verbatim>\<open>bytes.LastIndex\<close> for a separator of one byte: the index of its last occurrence, or \<open>-1\<close>.
\<close>

primrec bytes_LastIndex :: "string \<Rightarrow> char \<Rightarrow> int" where
  "bytes_LastIndex [] sep = - 1"
| "bytes_LastIndex (x # xs) sep =
     (let i = bytes_LastIndex xs sep in
      if 0 \<le> i then i + 1 else if x = sep then 0 else - 1)"

text \<open>
  The loop of \<^verbatim>\<open>extractFailureFromLogs\<close>, from the index \<open>idx\<close> with the record \<open>msg\<close> as the
  lines decoded so far have left it (the record is declared once, outside the loop).
  \<^verbatim>\<open>json.Unmarshal\<close> belongs to the Go library; it is the parameter \<open>unmarshal\<close>, which takes a
  line and the record and answers whether it returned an error and the record afterwards.
\<close>

function extractFailureLoop ::
  "(string \<Rightarrow> LogMessage \<Rightarrow> bool \<times> LogMessage) \<Rightarrow> string \<Rightarrow> int \<Rightarrow> LogMessage \<Rightarrow> string" where
  "extractFailureLoop unmarshal logs idx msg =
     (if 0 < idx then
        (let n = bytes_LastIndex (take (nat idx) logs) newline;
             nidx = (if n < 0 then 0 else n);
             line = drop (nat nidx) (take (nat idx) logs);
             r = unmarshal line msg
         in if fst r then extractFailureLoop unmarshal logs nidx (snd r)
            else if msg_Message (snd r) = [] then extractFailureLoop unmarshal logs nidx (snd r)
            else if msg_Error (snd r) = [] then msg_Message (snd r)
            else msg_Message (snd r) @ '': '' @ msg_Error (snd r))
      else logs)"
  by pat_completeness auto
termination
proof -
  have lt: "bytes_LastIndex s c < int (length s)" for s c
    by (induction s) (auto simp: Let_def)
  have "bytes_LastIndex (take (nat idx) logs) newline < idx" if "0 < idx" for idx logs
    using lt[of "take (nat idx) logs" newline] that by simp
  then show ?thesis
    by (relation "measure (\<lambda>(u, logs, idx, m). nat idx)") auto
qed

declare extractFailureLoop.simps [simp del]

definition extractFailureFromLogs ::
  "(string \<Rightarrow> LogMessage \<Rightarrow> bool \<times> LogMessage) \<Rightarrow> string \<Rightarrow> string" where
  "extractFailureFromLogs unmarshal logs =
     extractFailureLoop unmarshal logs (bytes_LastIndex logs newline) emptyLogMessage"

text \<open>
  The body of the loop of \<^verbatim>\<open>extractFailure\<close> for one container status, in two parts. Each
  answers \<open>Some\<close> of what \<^verbatim>\<open>extractFailure\<close> returns when the container makes it return, and
  \<open>None\<close> when the loop goes on. First the waiting state with a failed image pull.
\<close>

definition imagePullFailure :: "Pod \<Rightarrow> ContainerStatus \<Rightarrow> (string \<times> WorkspacePhase option) option" where
  "imagePullFailure pod cs =
     (case st_Waiting (cs_State cs) of
        None \<Rightarrow> None
      | Some w \<Rightarrow>
          if wait_Reason w = ''ImagePullBackOff'' \<or> wait_Reason w = ''ErrImagePull'' then
            Some (''cannot pull image: '' @ wait_Message w,
                  if isPodBeingDeleted pod then None else Some WorkspacePhaseCreating)
          else None)"

text \<open>
  Then the terminated state, or the last terminated state when the container is not terminated
  now. Where the container wrote a termination message the phase returned is a pointer to a
  variable that stays empty when the pod is being deleted.
\<close>

definition terminationFailure ::
  "(string \<Rightarrow> LogMessage \<Rightarrow> bool \<times> LogMessage) \<Rightarrow> Workspace \<Rightarrow> Pod \<Rightarrow> ContainerStatus
     \<Rightarrow> (string \<times> WorkspacePhase option) option" where
  "terminationFailure unmarshal ws pod cs =
     (let terminationState =
            (case st_Terminated (cs_State cs) of
               None \<Rightarrow> st_Terminated (cs_LastTerminationState cs)
             | Some t \<Rightarrow> Some t)
      in case terminationState of
           None \<Rightarrow> None
         | Some t \<Rightarrow>
             if term_ExitCode t \<noteq> 0 \<and> term_Message t \<noteq> [] then
               Some (extractFailureFromLogs unmarshal (term_Message t),
                     Some (if \<not> isPodBeingDeleted pod then WorkspacePhaseRunning
                           else WorkspacePhaseEmpty))
             else if term_Reason t = ''Error'' then
               (if \<not> isPodBeingDeleted pod \<and> term_ExitCode t \<noteq> containerKilledExitCode then
                  Some (''container '' @ cs_Name cs @ '' ran with an error: exit code ''
                          @ fmt_d (term_ExitCode t),
                        Some WorkspacePhaseRunning)
                else None)
             else if term_Reason t = ''Completed'' \<and> \<not> isPodBeingDeleted pod then
               (if status_Headless ws then Some ([], None)
                else Some (''container '' @ cs_Name cs
                             @ '' completed; containers of a workspace pod are not supposed to do that'',
                           None))
             else if \<not> isPodBeingDeleted pod \<and> term_ExitCode t \<noteq> containerUnknownExitCode then
               Some (''workspace container '' @ cs_Name cs @ '' terminated for an unknown reason: (''
                       @ term_Reason t @ '') '' @ term_Message t,
                     Some WorkspacePhaseUnknown)
             else None)"

text \<open>The loop over the container statuses: the first container that returns decides.\<close>

fun extractFailureContainers ::
  "(string \<Rightarrow> LogMessage \<Rightarrow> bool \<times> LogMessage) \<Rightarrow> Workspace \<Rightarrow> Pod \<Rightarrow> ContainerStatus list
     \<Rightarrow> string \<times> WorkspacePhase option" where
  "extractFailureContainers unmarshal ws pod [] = ([], None)"
| "extractFailureContainers unmarshal ws pod (cs # rest) =
     (case imagePullFailure pod cs of
        Some r \<Rightarrow> r
      | None \<Rightarrow>
          (case terminationFailure unmarshal ws pod cs of
             Some r \<Rightarrow> r
           | None \<Rightarrow> extractFailureContainers unmarshal ws pod rest))"

definition extractFailure ::
  "(string \<Rightarrow> LogMessage \<Rightarrow> bool \<times> LogMessage) \<Rightarrow> Workspace \<Rightarrow> Pod
     \<Rightarrow> string \<times> WorkspacePhase option" where
  "extractFailure unmarshal ws pod =
     (if pod_Phase pod = PodFailed \<and> (pod_Reason pod \<noteq> [] \<or> pod_Message pod \<noteq> []) then
        (pod_Reason pod @ '': '' @ pod_Message pod, None)
      else extractFailureContainers unmarshal ws pod (pod_ContainerStatuses pod))"

section \<open>Status reconciler\<close>

definition emptyRuntime :: WorkspaceRuntimeStatus where
  "emptyRuntime = \<lparr> rt_NodeName = [], rt_HostIP = [], rt_PodIP = [], rt_PodName = [] \<rparr>"

text \<open>The runtime snapshot: an empty field takes the pod's value, a filled one keeps its own.\<close>

definition fillRuntime :: "WorkspaceRuntimeStatus option \<Rightarrow> Pod \<Rightarrow> WorkspaceRuntimeStatus" where
  "fillRuntime runtime pod =
     (let r0 = (case runtime of None \<Rightarrow> emptyRuntime | Some r \<Rightarrow> r);
          r1 = (if rt_NodeName r0 = [] \<and> pod_NodeName pod \<noteq> []
                then r0\<lparr> rt_NodeName := pod_NodeName pod \<rparr> else r0);
          r2 = (if rt_HostIP r1 = [] \<and> pod_HostIP pod \<noteq> []
                then r1\<lparr> rt_HostIP := pod_HostIP pod \<rparr> else r1);
          r3 = (if rt_PodIP r2 = [] \<and> pod_PodIP pod \<noteq> []
                then r2\<lparr> rt_PodIP := pod_PodIP pod \<rparr> else r2);
          r4 = (if rt_PodName r3 = [] \<and> pod_Name pod \<noteq> []
                then r3\<lparr> rt_PodName := pod_Name pod \<rparr> else r3)
      in r4)"

text \<open>
  The phase the closing \<^verbatim>\<open>switch\<close> of \<^verbatim>\<open>updateWorkspaceStatus\<close> assigns; every case assigns
  one. The name of the disposal finalizer, \<^verbatim>\<open>gitpodPodFinalizerName\<close>, is a constant declared
  outside the sources at hand: it is the parameter \<open>finalizerName\<close>.
\<close>

definition phaseFromPod :: "string \<Rightarrow> Workspace \<Rightarrow> Pod \<Rightarrow> WorkspacePhase" where
  "phaseFromPod finalizerName workspace pod =
     (if isPodBeingDeleted pod then
        (let hasFinalizer = list_ex (\<lambda>f. f = finalizerName) (pod_Finalizers pod) in
         if hasFinalizer then
           (if conditionPresentAndTrue (status_Conditions workspace) WorkspaceConditionBackupComplete
               \<or> conditionPresentAndTrue (status_Conditions workspace) WorkspaceConditionBackupFailure
               \<or> conditionWithStatusAndReson (status_Conditions workspace)
                    WorkspaceConditionContentReady False ''InitializationFailure''
            then WorkspacePhaseStopped else WorkspacePhaseStopping)
         else WorkspacePhaseStopped)
      else if pod_Phase pod = PodPending then
        (let creating = list_ex (\<lambda>cs. case st_Waiting (cs_State cs) of
                                     Some w \<Rightarrow> wait_Reason w = ''ContainerCreating''
                                               \<or> wait_Reason w = ''ImagePullBackOff''
                                               \<or> wait_Reason w = ''ErrImagePull''
                                   | None \<Rightarrow> False) (pod_ContainerStatuses pod)
         in if creating then WorkspacePhaseCreating else WorkspacePhasePending)
      else if pod_Phase pod = PodRunning then
        (let ready = list_ex cs_Ready (pod_ContainerStatuses pod)
         in if ready then WorkspacePhaseRunning else WorkspacePhaseInitializing)
      else if status_Headless workspace \<and> (pod_Phase pod = PodSucceeded \<or> pod_Phase pod = PodFailed) then
        WorkspacePhaseStopping
      else if pod_Phase pod = PodUnknown then WorkspacePhaseUnknown
      else WorkspacePhaseUnknown)"

text \<open>
  \<^verbatim>\<open>updateWorkspaceStatus\<close>: the workspace is updated in place and the error returned is nil on
  every path, so the model returns the workspace. \<open>now\<close> is the instant \<^verbatim>\<open>metav1.Now()\<close> reads.
\<close>

definition updateWorkspaceStatus ::
  "string \<Rightarrow> (string \<Rightarrow> LogMessage \<Rightarrow> bool \<times> LogMessage) \<Rightarrow> Time \<Rightarrow> Workspace \<Rightarrow> Pod list
     \<Rightarrow> Workspace" where
  "updateWorkspaceStatus finalizerName unmarshal now workspace pods =
     (case pods of
        [] \<Rightarrow>
          (let w1 = (if status_Phase workspace = WorkspacePhaseEmpty
                     then workspace\<lparr> status_Phase := WorkspacePhasePending \<rparr> else workspace);
               w2 = (if status_Phase w1 \<noteq> WorkspacePhasePending
                     then w1\<lparr> status_Phase := WorkspacePhaseStopped \<rparr> else w1)
           in w2)
      | [pod] \<Rightarrow>
          (let w1 = workspace\<lparr> status_Conditions :=
                      AddUniqueCondition (status_Conditions workspace)
                        \<lparr> cond_Type = WorkspaceConditionDeployed,
                          cond_Status = ConditionTrue,
                          cond_LastTransitionTime = now,
                          cond_Reason = [],
                          cond_Message = [] \<rparr> \<rparr>;
               w2 = w1\<lparr> status_Runtime := Some (fillRuntime (status_Runtime w1) pod) \<rparr>;
               fp = extractFailure unmarshal w2 pod;
               failure = fst fp;
               w3 = (case snd fp of Some phase \<Rightarrow> w2\<lparr> status_Phase := phase \<rparr> | None \<Rightarrow> w2);
               w4 = (if failure \<noteq> []
                        \<and> \<not> conditionPresentAndTrue (status_Conditions w3) WorkspaceConditionFailed
                     then w3\<lparr> status_Conditions :=
                            AddUniqueCondition (status_Conditions w3)
                              \<lparr> cond_Type = WorkspaceConditionFailed,
                                cond_Status = ConditionTrue,
                                cond_LastTransitionTime = now,
                                cond_Reason = [],
                                cond_Message = failure \<rparr> \<rparr>
                     else w3)
           in w4\<lparr> status_Phase := phaseFromPod finalizerName w4 pod \<rparr>)
      | _ \<Rightarrow>
          workspace\<lparr> status_Conditions :=
            AddUniqueCondition (status_Conditions workspace)
              \<lparr> cond_Type = WorkspaceConditionFailed,
                cond_Status = ConditionTrue,
                cond_LastTransitionTime = now,
                cond_Reason = [],
                cond_Message = ''multiple pods exists - this should never happen'' \<rparr> \<rparr>)"

section \<open>Lines of a log\<close>







section \<open>A decoder for records of strings\<close>

text \<open>
  What \<^verbatim>\<open>json.Unmarshal\<close> does into the record \<^verbatim>\<open>msg\<close> on the fragment of JSON that the
  examples below use: one object whose members are strings of printable ASCII without escapes,
  with white space between the tokens. A member named \<^verbatim>\<open>message\<close> or \<^verbatim>\<open>error\<close> (in any case of
  letters) sets the field and other members are passed over. A line outside the fragment is
  answered with an error and the record as it was. The library answers so a line that is not
  JSON; it accepts other JSON (numbers, nested values, escapes) and keeps the fields it has
  stored before a member of the wrong type, so the decoder stands for the library on lines of
  the fragment and on lines that are not JSON, and on no other line.
\<close>

definition is_space :: "char \<Rightarrow> bool" where
  "is_space c = (c = CHR '' '' \<or> c = CHR 0x09 \<or> c = CHR 0x0D \<or> c = CHR 0x0A)"

definition skip_space :: "string \<Rightarrow> string" where
  "skip_space s = dropWhile is_space s"

definition plain_char :: "char \<Rightarrow> bool" where
  "plain_char c = (32 \<le> (of_char c :: nat) \<and> (of_char c :: nat) < 127 \<and> c \<noteq> CHR 0x22 \<and> c \<noteq> CHR 0x5C)"

definition to_lower :: "char \<Rightarrow> char" where
  "to_lower c = (if 65 \<le> (of_char c :: nat) \<and> (of_char c :: nat) \<le> 90 then char_of ((of_char c :: nat) + 32) else c)"

definition parse_string :: "string \<Rightarrow> (string \<times> string) option" where
  "parse_string s =
     (case s of
        [] \<Rightarrow> None
      | c # cs \<Rightarrow>
          if c = CHR 0x22 then
            (case dropWhile plain_char cs of
               [] \<Rightarrow> None
             | q # rest \<Rightarrow> if q = CHR 0x22 then Some (takeWhile plain_char cs, rest) else None)
          else None)"

definition assign_member :: "string \<Rightarrow> string \<Rightarrow> LogMessage \<Rightarrow> LogMessage" where
  "assign_member k v m =
     (if map to_lower k = ''error'' then m\<lparr> msg_Error := v \<rparr>
      else if map to_lower k = ''message'' then m\<lparr> msg_Message := v \<rparr>
      else m)"

text \<open>The members of the object, after its opening brace; the fuel bounds the members read.\<close>

fun parse_members :: "nat \<Rightarrow> string \<Rightarrow> LogMessage \<Rightarrow> LogMessage option" where
  "parse_members 0 s m = None"
| "parse_members (Suc n) s m =
     (case parse_string (skip_space s) of
        None \<Rightarrow> None
      | Some (k, s1) \<Rightarrow>
          (case skip_space s1 of
             [] \<Rightarrow> None
           | c # s2 \<Rightarrow>
               if c \<noteq> CHR '':'' then None
               else (case parse_string (skip_space s2) of
                       None \<Rightarrow> None
                     | Some (v, s3) \<Rightarrow>
                         (case skip_space s3 of
                            [] \<Rightarrow> None
                          | d # s4 \<Rightarrow>
                              if d = CHR '','' then parse_members n s4 (assign_member k v m)
                              else if d = CHR ''}'' \<and> skip_space s4 = []
                              then Some (assign_member k v m)
                              else None))))"

definition decode_record :: "string \<Rightarrow> LogMessage \<Rightarrow> bool \<times> LogMessage" where
  "decode_record line m =
     (case skip_space line of
        [] \<Rightarrow> (True, m)
      | c # s \<Rightarrow>
          if c \<noteq> CHR ''{'' then (True, m)
          else (case skip_space s of
                  [] \<Rightarrow> (True, m)
                | d # s' \<Rightarrow>
                    if d = CHR ''}'' then (if skip_space s' = [] then (False, m) else (True, m))
                    else (case parse_members (length s) s m of
                            None \<Rightarrow> (True, m)
                          | Some m' \<Rightarrow> (False, m'))))"

section \<open>Example inputs\<close>

definition example_timeouts :: WorkspaceTimeoutConfiguration where
  "example_timeouts =
     \<lparr> Initialization = 30 * Minute, TotalStartup = Hour, RegularWorkspace = 30 * Minute,
       HeadlessWorkspace = 10 * Minute, MaxLifetime = 8 * Hour, AfterClose = 2 * Minute,
       Stopping = Hour, ContentFinalization = Hour \<rparr>"

definition example_condition :: "string \<Rightarrow> ConditionStatus \<Rightarrow> Time \<Rightarrow> string \<Rightarrow> Condition" where
  "example_condition tpe st t message =
     \<lparr> cond_Type = tpe, cond_Status = st, cond_LastTransitionTime = t,
       cond_Reason = [], cond_Message = message \<rparr>"

definition example_workspace :: "WorkspacePhase \<Rightarrow> Condition list \<Rightarrow> Workspace" where
  "example_workspace ph conds =
     \<lparr> ws_Name = ''ws-1'', ws_CreationTimestamp = 0, spec_Timeout = None,
       status_Phase = ph, status_Conditions = conds,
       status_Headless = False, status_Runtime = None \<rparr>"

definition example_state :: ContainerState where
  "example_state = \<lparr> st_Waiting = None, st_Running = False, st_Terminated = None \<rparr>"

definition example_container :: "ContainerState \<Rightarrow> ContainerStatus" where
  "example_container st =
     \<lparr> cs_Name = ''workspace'', cs_Ready = False, cs_State = st,
       cs_LastTerminationState = example_state \<rparr>"

definition example_pod :: "Time option \<Rightarrow> string list \<Rightarrow> PodPhase \<Rightarrow> ContainerStatus list \<Rightarrow> Pod" where
  "example_pod deleted fins ph css =
     \<lparr> pod_Name = ''ws-1-pod'', pod_DeletionTimestamp = deleted, pod_Finalizers = fins,
       pod_NodeName = ''node-1'', pod_Phase = ph, pod_Reason = [], pod_Message = [],
       pod_HostIP = ''10.0.0.1'', pod_PodIP = ''10.1.0.7'', pod_ContainerStatuses = css \<rparr>"

section \<open>Arithmetic of durations\<close>

lemma go_quot_nonneg: "0 \<le> a \<Longrightarrow> 0 < b \<Longrightarrow> go_quot a b = a div b"
  by (simp add: go_quot_def sgn_if)

lemma go_rem_nonneg: "0 \<le> a \<Longrightarrow> 0 < b \<Longrightarrow> go_rem a b = a mod b"
  by (simp add: go_rem_def go_quot_nonneg minus_mult_div_eq_mod)

lemma half_up_div:
  fixes d h :: int
  assumes "0 < h"
  shows "(d + h) div (2 * h) =
           (if d mod (2 * h) + d mod (2 * h) < 2 * h then d div (2 * h) else d div (2 * h) + 1)"
proof -
  let ?m = "2 * h"
  let ?r = "d mod ?m"
  have r: "0 \<le> ?r" "?r < ?m" using assms by simp_all
  have "?r + (d div ?m) * ?m = d" by (rule mod_div_mult_eq)
  then have e: "d + h = (?r + h) + (d div ?m) * ?m" by linarith
  have "(d + h) div ?m = (?r + h) div ?m + d div ?m"
    unfolding e using assms by (subst div_mult_self1) simp_all
  moreover have "(?r + h) div ?m = (if ?r + ?r < ?m then 0 else 1)"
  proof (cases "?r + ?r < ?m")
    case True
    then have "?r + h < ?m" by simp
    then show ?thesis using True r assms by simp
  next
    case False
    then have b: "0 \<le> ?r + h - ?m" "?r + h - ?m < ?m" using r by simp_all
    have eq: "?r + h = (?r + h - ?m) + 1 * ?m" by linarith
    have "(?r + h) div ?m = ((?r + h - ?m) + 1 * ?m) div ?m"
      by (rule arg_cong[of _ _ "\<lambda>x. x div ?m", OF eq])
    also have "\<dots> = (?r + h - ?m) div ?m + 1"
      using assms by (subst div_mult_self1) simp_all
    also have "\<dots> = 1" using b by (simp only: div_pos_pos_trivial)
    finally have "(?r + h) div ?m = 1" .
    then show ?thesis using False by simp
  qed
  ultimately show ?thesis by simp
qed

lemma duration_Round_nonneg:
  assumes "0 \<le> d" "d + Minute \<le> maxDuration"
  shows "duration_Round d Minute = ((d + 30 * Second) div Minute) * Minute"
proof -
  have M: "Minute = 2 * (30 * Second)" "0 < 30 * Second" by (simp_all add: Minute_def Second_def)
  have Mpos: "0 < Minute" using M by linarith
  have r: "go_rem d Minute = d mod Minute" using assms Mpos by (simp add: go_rem_nonneg)
  have hu: "(d + 30 * Second) div Minute =
     (if d mod Minute + d mod Minute < Minute then d div Minute else d div Minute + 1)"
    using half_up_div[of "30 * Second" d] M by simp
  show ?thesis
  proof (cases "d mod Minute + d mod Minute < Minute")
    case True
    then show ?thesis using assms r hu Mpos
      by (simp add: duration_Round_def Let_def minus_mod_eq_div_mult)
  next
    case False
    have "d + Minute - d mod Minute = (d div Minute + 1) * Minute"
      by (simp add: algebra_simps minus_mod_eq_div_mult[symmetric])
    moreover have "0 \<le> d mod Minute" using Mpos by simp
    ultimately show ?thesis using False assms r hu Mpos
      by (simp add: duration_Round_def Let_def)
  qed
qed

lemma formatDuration_nonneg:
  assumes "0 \<le> d" "d + Minute \<le> maxDuration"
  shows "formatDuration d =
     fmt_02d ((d + 30 * Second) div Minute div 60) @ ''h'' @
     fmt_02d ((d + 30 * Second) div Minute mod 60) @ ''m''"
proof -
  define k where "k = (d + 30 * Second) div Minute"
  have Mpos: "0 < Minute" "0 < Hour" by (simp_all add: Minute_def Second_def Hour_def)
  have k0: "0 \<le> k" unfolding k_def using assms Mpos by (simp add: Second_def pos_imp_zdiv_nonneg_iff)
  have R: "duration_Round d Minute = k * Minute" unfolding k_def by (rule duration_Round_nonneg[OF assms])
  have a: "k * Minute div (Minute * 60) = (k * Minute div Minute) div 60"
    by (rule zdiv_zmult2_eq) simp
  have b: "k * Minute div Minute = k" using Mpos(1) by simp
  have c: "Hour = Minute * 60" by (simp add: Hour_def)
  have hq: "k * Minute div Hour = k div 60" unfolding c a b ..
  have h: "go_quot (k * Minute) Hour = k div 60"
    using k0 Mpos hq by (simp add: go_quot_nonneg)
  have "k * Minute - (k div 60) * Hour = (k mod 60) * Minute"
    by (simp add: c algebra_simps minus_mult_div_eq_mod[symmetric])
  moreover have "go_quot ((k mod 60) * Minute) Minute = k mod 60"
    using Mpos by (simp add: go_quot_nonneg)
  ultimately show ?thesis
    unfolding formatDuration_def R Let_def h k_def[symmetric] by simp
qed

lemma time_Since_exact:
  "minDuration \<le> now - t \<Longrightarrow> now - t \<le> maxDuration \<Longrightarrow> time_Since now t = now - t"
  by (simp add: time_Since_def Let_def)

lemmas duration_defs = maxDuration_def minDuration_def Hour_def Minute_def Second_def

section \<open>Properties of the timeout policy\<close>

lemma decide_empty_iff: "decide now start td act = [] \<longleftrightarrow> time_Since now start < td"
  by (simp add: decide_def Let_def)

lemma decide_timed_out:
  "td \<le> time_Since now start \<Longrightarrow>
   decide now start td act =
     ''workspace timed out after '' @ act @ '' ('' @ formatDuration (time_Since now start)
       @ '') took longer than '' @ formatDuration td"
  by (simp add: decide_def Let_def)

lemma getWorkspaceActivityIn_None:
  "getWorkspaceActivityIn cs = None \<longleftrightarrow>
     list_all (\<lambda>c. cond_Type c \<noteq> WorkspaceConditionUserActivity) cs"
  by (induction cs) auto

text \<open>
  C4. Maximum lifetime wins: for a workspace in phase \<^verbatim>\<open>Running\<close> whose time since creation has
  reached \<^verbatim>\<open>MaxLifetime\<close>, the policy answers the maximum-lifetime reason, which is not empty,
  whatever the activity, the \<^verbatim>\<open>Closed\<close> condition, the headless flag and the custom timeout are.
\<close>

theorem max_lifetime_precedence:
  assumes "status_Phase ws = WorkspacePhaseRunning"
    and "MaxLifetime timeouts \<le> time_Since now (ws_CreationTimestamp ws)"
  shows "isWorkspaceTimedOut now ws pod timeouts =
           Some (''workspace timed out after maximum lifetime (''
                 @ formatDuration (time_Since now (ws_CreationTimestamp ws))
                 @ '') took longer than '' @ formatDuration (MaxLifetime timeouts))
         \<and> isWorkspaceTimedOut now ws pod timeouts \<noteq> Some []"
  using assms
  by (simp add: isWorkspaceTimedOut_def Let_def decide_timed_out activityMaxLifetime_def)

theorem max_lifetime_precedence_witness:
  "status_Phase (example_workspace WorkspacePhaseRunning
       [example_condition ''UserActivity'' ConditionTrue (10 * Hour - Minute) []]) = WorkspacePhaseRunning
   \<and> MaxLifetime example_timeouts \<le> time_Since (10 * Hour) 0
   \<and> getWorkspaceActivity (example_workspace WorkspacePhaseRunning
       [example_condition ''UserActivity'' ConditionTrue (10 * Hour - Minute) []]) = Some (10 * Hour - Minute)
   \<and> isWorkspaceTimedOut (10 * Hour)
       (example_workspace WorkspacePhaseRunning
          [example_condition ''UserActivity'' ConditionTrue (10 * Hour - Minute) []])
       None example_timeouts =
        Some ''workspace timed out after maximum lifetime (10h00m) took longer than 08h00m''"
proof -
  let ?w = "example_workspace WorkspacePhaseRunning
              [example_condition ''UserActivity'' ConditionTrue (10 * Hour - Minute) []]"
  have p: "status_Phase ?w = WorkspacePhaseRunning" by (simp add: example_workspace_def)
  have c: "ws_CreationTimestamp ?w = 0" by (simp add: example_workspace_def)
  have e: "time_Since (10 * Hour) 0 = 10 * Hour"
    by (simp add: time_Since_def duration_defs)
  have m: "MaxLifetime example_timeouts \<le> time_Since (10 * Hour) (ws_CreationTimestamp ?w)"
    unfolding c e by (simp add: example_timeouts_def Hour_def Minute_def Second_def)
  have a: "getWorkspaceActivity ?w = Some (10 * Hour - Minute)"
    by (simp add: getWorkspaceActivity_def example_workspace_def example_condition_def
        WorkspaceConditionUserActivity_def)
  have f1: "formatDuration (10 * Hour) = ''10h00m''" by code_simp
  have f2: "formatDuration (MaxLifetime example_timeouts) = ''08h00m''" by code_simp
  show ?thesis
    using max_lifetime_precedence[OF p m, of None] p m a by (simp add: c e f1 f2)
qed

text \<open>
  C10. A workspace in phase \<^verbatim>\<open>Running\<close> that is not headless, has not reached \<^verbatim>\<open>MaxLifetime\<close>
  and carries no \<^verbatim>\<open>UserActivity\<close> condition is judged by \<^verbatim>\<open>TotalStartup\<close> from its creation
  instant, whether it is closed or not; the custom timeout and \<^verbatim>\<open>AfterClose\<close> play no part:
  changing them changes nothing.
\<close>

theorem never_active_uses_total_startup:
  assumes "status_Phase ws = WorkspacePhaseRunning"
    and "\<not> status_Headless ws"
    and "time_Since now (ws_CreationTimestamp ws) < MaxLifetime timeouts"
    and "list_all (\<lambda>c. cond_Type c \<noteq> WorkspaceConditionUserActivity) (status_Conditions ws)"
  shows "isWorkspaceTimedOut now ws pod timeouts =
           Some (decide now (ws_CreationTimestamp ws) (TotalStartup timeouts) activityNone)
         \<and> isWorkspaceTimedOut now (ws\<lparr> spec_Timeout := ct \<rparr>) pod (timeouts\<lparr> AfterClose := ac \<rparr>) =
             isWorkspaceTimedOut now ws pod timeouts"
proof -
  have a: "getWorkspaceActivity ws = None"
    using assms(4) by (simp add: getWorkspaceActivity_def getWorkspaceActivityIn_None)
  have a': "getWorkspaceActivity (ws\<lparr> spec_Timeout := ct \<rparr>) = None"
    using assms(4) by (simp add: getWorkspaceActivity_def getWorkspaceActivityIn_None)
  have m: "decide now (ws_CreationTimestamp ws) (MaxLifetime timeouts) activityMaxLifetime = []"
    using assms(3) by (simp add: decide_empty_iff)
  show ?thesis
    using assms(1,2) a a' m by (simp add: isWorkspaceTimedOut_def Let_def)
qed

theorem never_active_uses_total_startup_witness:
  "conditionPresentAndTrue
     (status_Conditions (example_workspace WorkspacePhaseRunning
        [example_condition ''Closed'' ConditionTrue Hour []])) WorkspaceConditionClosed
   \<and> isWorkspaceTimedOut (2 * Hour)
       ((example_workspace WorkspacePhaseRunning [example_condition ''Closed'' ConditionTrue Hour []])
          \<lparr> spec_Timeout := Some (3 * Hour) \<rparr>)
       None example_timeouts =
      Some ''workspace timed out after period of inactivity (02h00m) took longer than 01h00m''"
proof -
  let ?w = "example_workspace WorkspacePhaseRunning [example_condition ''Closed'' ConditionTrue Hour []]"
  have p: "status_Phase ?w = WorkspacePhaseRunning" and h: "\<not> status_Headless ?w"
    and c: "ws_CreationTimestamp ?w = 0"
    by (simp_all add: example_workspace_def)
  have e: "time_Since (2 * Hour) 0 = 2 * Hour" by (simp add: time_Since_def duration_defs)
  have m: "time_Since (2 * Hour) (ws_CreationTimestamp ?w) < MaxLifetime example_timeouts"
    unfolding c e by (simp add: example_timeouts_def duration_defs)
  have u: "list_all (\<lambda>c. cond_Type c \<noteq> WorkspaceConditionUserActivity) (status_Conditions ?w)"
    by (simp add: example_workspace_def example_condition_def WorkspaceConditionUserActivity_def)
  have cl: "conditionPresentAndTrue (status_Conditions ?w) WorkspaceConditionClosed"
    by (simp add: example_workspace_def example_condition_def WorkspaceConditionClosed_def
        conditionPresentAndTrue_def)
  have t: "TotalStartup example_timeouts = Hour" by (simp add: example_timeouts_def)
  have d: "decide (2 * Hour) 0 Hour activityNone =
             ''workspace timed out after period of inactivity (02h00m) took longer than 01h00m''"
    by code_simp
  show ?thesis
    using never_active_uses_total_startup[OF p h m u, of None "Some (3 * Hour)" "AfterClose example_timeouts"] cl
    by (simp add: c t d)
qed

text \<open>
  C7, as the code has it. A headless workspace in phase \<^verbatim>\<open>Running\<close> that has not reached
  \<^verbatim>\<open>MaxLifetime\<close> is judged from its creation instant, by the custom timeout when the workspace
  has one and by \<^verbatim>\<open>HeadlessWorkspace\<close> otherwise.
\<close>

theorem headless_running_timeout:
  assumes "status_Phase ws = WorkspacePhaseRunning"
    and "status_Headless ws"
    and "time_Since now (ws_CreationTimestamp ws) < MaxLifetime timeouts"
  shows "isWorkspaceTimedOut now ws pod timeouts =
           Some (decide now (ws_CreationTimestamp ws)
                   (case spec_Timeout ws of Some ctv \<Rightarrow> ctv | None \<Rightarrow> HeadlessWorkspace timeouts)
                   activityRunningHeadless)"
proof -
  have m: "decide now (ws_CreationTimestamp ws) (MaxLifetime timeouts) activityMaxLifetime = []"
    using assms(3) by (simp add: decide_empty_iff)
  show ?thesis
    using assms(1,2) m by (simp add: isWorkspaceTimedOut_def Let_def)
qed

theorem headless_running_timeout_witness:
  "isWorkspaceTimedOut (30 * Minute)
     ((example_workspace WorkspacePhaseRunning []) \<lparr> status_Headless := True \<rparr>) None example_timeouts =
     Some ''workspace timed out after running the headless workspace (00h30m) took longer than 00h10m''"
proof -
  let ?w = "(example_workspace WorkspacePhaseRunning []) \<lparr> status_Headless := True \<rparr>"
  have p: "status_Phase ?w = WorkspacePhaseRunning" and h: "status_Headless ?w"
    and c: "ws_CreationTimestamp ?w = 0" and s: "spec_Timeout ?w = None"
    by (simp_all add: example_workspace_def)
  have e: "time_Since (30 * Minute) 0 = 30 * Minute" by (simp add: time_Since_def duration_defs)
  have m: "time_Since (30 * Minute) (ws_CreationTimestamp ?w) < MaxLifetime example_timeouts"
    unfolding c e by (simp add: example_timeouts_def duration_defs)
  have t: "HeadlessWorkspace example_timeouts = 10 * Minute" by (simp add: example_timeouts_def)
  have d: "decide (30 * Minute) 0 (10 * Minute) activityRunningHeadless =
      ''workspace timed out after running the headless workspace (00h30m) took longer than 00h10m''"
    by code_simp
  show ?thesis
    using headless_running_timeout[OF p h m, of None] by (simp add: c s t d)
qed

text \<open>
  C7 as stated fails: a headless workspace with a custom timeout of one hour, thirty minutes
  after its creation, is past \<^verbatim>\<open>HeadlessWorkspace\<close> (ten minutes) and is not timed out.
\<close>

theorem headless_ignores_custom_timeout_counterexample:
  "status_Phase ((example_workspace WorkspacePhaseRunning [])
       \<lparr> status_Headless := True, spec_Timeout := Some Hour \<rparr>) = WorkspacePhaseRunning
   \<and> status_Headless ((example_workspace WorkspacePhaseRunning [])
       \<lparr> status_Headless := True, spec_Timeout := Some Hour \<rparr>)
   \<and> time_Since (30 * Minute) 0 < MaxLifetime example_timeouts
   \<and> HeadlessWorkspace example_timeouts \<le> time_Since (30 * Minute) 0
   \<and> decide (30 * Minute) 0 (HeadlessWorkspace example_timeouts) activityRunningHeadless \<noteq> []
   \<and> isWorkspaceTimedOut (30 * Minute)
       ((example_workspace WorkspacePhaseRunning [])
          \<lparr> status_Headless := True, spec_Timeout := Some Hour \<rparr>) None example_timeouts = Some []"
proof -
  have e: "time_Since (30 * Minute) 0 = 30 * Minute" by (simp add: time_Since_def duration_defs)
  have 1: "time_Since (30 * Minute) 0 < MaxLifetime example_timeouts"
    and 2: "HeadlessWorkspace example_timeouts \<le> time_Since (30 * Minute) 0"
    unfolding e by (simp_all add: example_timeouts_def duration_defs)
  have 3: "decide (30 * Minute) 0 (HeadlessWorkspace example_timeouts) activityRunningHeadless \<noteq> []"
    using 2 by (simp add: decide_empty_iff)
  have 4: "decide (30 * Minute) 0 (MaxLifetime example_timeouts) activityMaxLifetime = []"
    using 1 by (simp add: decide_empty_iff)
  have 5: "decide (30 * Minute) 0 Hour activityRunningHeadless = []"
    unfolding decide_empty_iff e by (simp add: duration_defs)
  show ?thesis
    using 1 2 3 4 5 by (simp add: isWorkspaceTimedOut_def Let_def example_workspace_def)
qed

lemma getWorkspaceActivityIn_find:
  "getWorkspaceActivityIn cs =
     map_option cond_LastTransitionTime
       (find (\<lambda>c. cond_Type c = WorkspaceConditionUserActivity) cs)"
  by (induction cs) simp_all

lemma running_rows:
  assumes "status_Phase ws = WorkspacePhaseRunning"
  shows "isWorkspaceTimedOut now ws pod timeouts =
     (if MaxLifetime timeouts \<le> time_Since now (ws_CreationTimestamp ws) then
        Some (decide now (ws_CreationTimestamp ws) (MaxLifetime timeouts) activityMaxLifetime)
      else if status_Headless ws then
        Some (decide now (ws_CreationTimestamp ws)
                (case spec_Timeout ws of Some ctv \<Rightarrow> ctv | None \<Rightarrow> HeadlessWorkspace timeouts)
                activityRunningHeadless)
      else
        (case find (\<lambda>c. cond_Type c = WorkspaceConditionUserActivity) (status_Conditions ws) of
           None \<Rightarrow> Some (decide now (ws_CreationTimestamp ws) (TotalStartup timeouts) activityNone)
         | Some a \<Rightarrow>
             if (\<exists>c \<in> set (status_Conditions ws).
                   cond_Type c = WorkspaceConditionClosed \<and> cond_Status c = ConditionTrue)
             then Some (decide now (cond_LastTransitionTime a) (AfterClose timeouts) activityClosed)
             else Some (decide now (cond_LastTransitionTime a)
                          (case spec_Timeout ws of Some ctv \<Rightarrow> ctv | None \<Rightarrow> RegularWorkspace timeouts)
                          activityNone)))"
proof -
  have m: "decide now (ws_CreationTimestamp ws) (MaxLifetime timeouts) activityMaxLifetime \<noteq> [] \<longleftrightarrow>
             MaxLifetime timeouts \<le> time_Since now (ws_CreationTimestamp ws)"
    by (simp add: decide_empty_iff not_less)
  have a: "getWorkspaceActivity ws =
             map_option cond_LastTransitionTime
               (find (\<lambda>c. cond_Type c = WorkspaceConditionUserActivity) (status_Conditions ws))"
    by (simp add: getWorkspaceActivity_def getWorkspaceActivityIn_find)
  have c: "conditionPresentAndTrue (status_Conditions ws) WorkspaceConditionClosed \<longleftrightarrow>
             (\<exists>c \<in> set (status_Conditions ws).
                cond_Type c = WorkspaceConditionClosed \<and> cond_Status c = ConditionTrue)"
    by (simp only: conditionPresentAndTrue_def list_ex_iff)
  show ?thesis
  proof (cases "MaxLifetime timeouts \<le> time_Since now (ws_CreationTimestamp ws)")
    case True
    then show ?thesis using assms m by (simp add: isWorkspaceTimedOut_def Let_def)
  next
    case False
    then have e: "decide now (ws_CreationTimestamp ws) (MaxLifetime timeouts) activityMaxLifetime = []"
      using m by blast
    show ?thesis
    proof (cases "status_Headless ws")
      case True
      then show ?thesis using assms False e by (simp add: isWorkspaceTimedOut_def Let_def)
    next
      case h: False
      show ?thesis
      proof (cases "find (\<lambda>c. cond_Type c = WorkspaceConditionUserActivity) (status_Conditions ws)")
        case None
        then show ?thesis using assms False e h a
          by (simp add: isWorkspaceTimedOut_def Let_def)
      next
        case (Some x)
        then show ?thesis using assms False e h a c
          by (simp add: isWorkspaceTimedOut_def Let_def)
      qed
    qed
  qed
qed

text \<open>
  C5. The threshold and the wording of a timeout. \<^verbatim>\<open>decide\<close> reports a timeout exactly when the
  time since the reference instant is at least the configured duration (the time being what
  \<^verbatim>\<open>time.Since\<close> measures, which is the plain difference wherever that fits a duration), and
  the reason then holds the elapsed and the configured duration, each rounded to the minute and
  written as hours and minutes of two digits. Every phase is judged by that decision and by
  nothing else: \<^verbatim>\<open>Pending\<close>, \<^verbatim>\<open>Initializing\<close> and \<^verbatim>\<open>Creating\<close> from the creation instant;
  \<^verbatim>\<open>Stopping\<close> from the deletion instant of the pod, and never while the pod is not deleted;
  \<^verbatim>\<open>Running\<close> by the maximum lifetime from the creation instant where that is reached, and
  otherwise by the one row that applies: headless from the creation instant, never active from
  the creation instant, closed from the last activity, and else the custom or the regular
  timeout from the last activity, the last activity being the transition time of the first
  \<^verbatim>\<open>UserActivity\<close> condition. The remaining phases never time out. A \<^verbatim>\<open>Pending\<close> workspace
  created 31 minutes ago is timed out with \<^verbatim>\<open>Initialization\<close> at 30 minutes, the reason showing
  \<^verbatim>\<open>31m\<close> and \<^verbatim>\<open>30m\<close>, and is not timed out with \<^verbatim>\<open>Initialization\<close> at 45 minutes.
\<close>

theorem timeout_threshold_and_format:
  "(decide now start td act \<noteq> [] \<longleftrightarrow> td \<le> time_Since now start)
   \<and> (td \<le> time_Since now start \<longrightarrow>
        decide now start td act =
          ''workspace timed out after '' @ act @ '' ('' @ formatDuration (time_Since now start)
            @ '') took longer than '' @ formatDuration td)
   \<and> (minDuration \<le> now - start \<and> now - start \<le> maxDuration \<longrightarrow> time_Since now start = now - start)
   \<and> (0 \<le> d \<and> d + Minute \<le> maxDuration \<longrightarrow>
        formatDuration d =
          fmt_02d ((d + 30 * Second) div Minute div 60) @ ''h'' @
          fmt_02d ((d + 30 * Second) div Minute mod 60) @ ''m'')
   \<and> (status_Phase ws = WorkspacePhasePending \<longrightarrow>
        isWorkspaceTimedOut now ws pod timeouts =
          Some (decide now (ws_CreationTimestamp ws) (Initialization timeouts) activityInit))
   \<and> (status_Phase ws = WorkspacePhaseInitializing \<longrightarrow>
        isWorkspaceTimedOut now ws pod timeouts =
          Some (decide now (ws_CreationTimestamp ws) (TotalStartup timeouts) activityStartup))
   \<and> (status_Phase ws = WorkspacePhaseCreating \<longrightarrow>
        isWorkspaceTimedOut now ws pod timeouts =
          Some (decide now (ws_CreationTimestamp ws) (TotalStartup timeouts) activityCreatingContainers))
   \<and> (status_Phase ws = WorkspacePhaseStopping \<and> pod_DeletionTimestamp p = Some dt \<longrightarrow>
        isWorkspaceTimedOut now ws (Some p) timeouts =
          (if conditionPresentAndTrue (status_Conditions ws) WorkspaceConditionBackupComplete
           then Some (decide now dt (ContentFinalization timeouts) activityBackup)
           else Some (decide now dt (Stopping timeouts) activityStopping)))
   \<and> (status_Phase ws = WorkspacePhaseStopping \<and> pod_DeletionTimestamp p = None \<longrightarrow>
        isWorkspaceTimedOut now ws (Some p) timeouts = Some [])
   \<and> (status_Phase ws = WorkspacePhaseStopped \<or> status_Phase ws = WorkspacePhaseUnknown
        \<or> status_Phase ws = WorkspacePhaseEmpty \<longrightarrow>
        isWorkspaceTimedOut now ws pod timeouts = Some [])
   \<and> (status_Phase ws = WorkspacePhaseRunning \<longrightarrow>
        isWorkspaceTimedOut now ws pod timeouts =
          (if MaxLifetime timeouts \<le> time_Since now (ws_CreationTimestamp ws) then
             Some (decide now (ws_CreationTimestamp ws) (MaxLifetime timeouts) activityMaxLifetime)
           else if status_Headless ws then
             Some (decide now (ws_CreationTimestamp ws)
                     (case spec_Timeout ws of Some ctv \<Rightarrow> ctv | None \<Rightarrow> HeadlessWorkspace timeouts)
                     activityRunningHeadless)
           else
             (case find (\<lambda>c. cond_Type c = WorkspaceConditionUserActivity) (status_Conditions ws) of
                None \<Rightarrow> Some (decide now (ws_CreationTimestamp ws) (TotalStartup timeouts) activityNone)
              | Some a \<Rightarrow>
                  if (\<exists>c \<in> set (status_Conditions ws).
                        cond_Type c = WorkspaceConditionClosed \<and> cond_Status c = ConditionTrue)
                  then Some (decide now (cond_LastTransitionTime a) (AfterClose timeouts) activityClosed)
                  else Some (decide now (cond_LastTransitionTime a)
                               (case spec_Timeout ws of Some ctv \<Rightarrow> ctv
                                | None \<Rightarrow> RegularWorkspace timeouts)
                               activityNone))))
   \<and> isWorkspaceTimedOut (31 * Minute) (example_workspace WorkspacePhasePending []) None example_timeouts =
        Some ''workspace timed out after initialization (00h31m) took longer than 00h30m''
   \<and> sublist ''31m'' ''workspace timed out after initialization (00h31m) took longer than 00h30m''
   \<and> sublist ''30m'' ''workspace timed out after initialization (00h31m) took longer than 00h30m''
   \<and> isWorkspaceTimedOut (31 * Minute) (example_workspace WorkspacePhasePending []) None
        (example_timeouts\<lparr> Initialization := 45 * Minute \<rparr>) = Some []"
proof -
  have 1: "decide now start td act \<noteq> [] \<longleftrightarrow> td \<le> time_Since now start"
    by (simp add: decide_empty_iff not_less)
  have 2: "td \<le> time_Since now start \<longrightarrow>
        decide now start td act =
          ''workspace timed out after '' @ act @ '' ('' @ formatDuration (time_Since now start)
            @ '') took longer than '' @ formatDuration td"
    using decide_timed_out by blast
  have 3: "minDuration \<le> now - start \<and> now - start \<le> maxDuration \<longrightarrow> time_Since now start = now - start"
    by (simp add: time_Since_exact)
  have 4: "0 \<le> d \<and> d + Minute \<le> maxDuration \<longrightarrow>
        formatDuration d =
          fmt_02d ((d + 30 * Second) div Minute div 60) @ ''h'' @
          fmt_02d ((d + 30 * Second) div Minute mod 60) @ ''m''"
    using formatDuration_nonneg by blast
  have 5: "status_Phase ws = WorkspacePhasePending \<longrightarrow>
        isWorkspaceTimedOut now ws pod timeouts =
          Some (decide now (ws_CreationTimestamp ws) (Initialization timeouts) activityInit)"
    by (simp add: isWorkspaceTimedOut_def Let_def)
  have 6: "status_Phase ws = WorkspacePhaseInitializing \<longrightarrow>
        isWorkspaceTimedOut now ws pod timeouts =
          Some (decide now (ws_CreationTimestamp ws) (TotalStartup timeouts) activityStartup)"
    by (simp add: isWorkspaceTimedOut_def Let_def)
  have 7: "status_Phase ws = WorkspacePhaseCreating \<longrightarrow>
        isWorkspaceTimedOut now ws pod timeouts =
          Some (decide now (ws_CreationTimestamp ws) (TotalStartup timeouts) activityCreatingContainers)"
    by (simp add: isWorkspaceTimedOut_def Let_def)
  have 8: "status_Phase ws = WorkspacePhaseStopping \<and> pod_DeletionTimestamp p = Some dt \<longrightarrow>
        isWorkspaceTimedOut now ws (Some p) timeouts =
          (if conditionPresentAndTrue (status_Conditions ws) WorkspaceConditionBackupComplete
           then Some (decide now dt (ContentFinalization timeouts) activityBackup)
           else Some (decide now dt (Stopping timeouts) activityStopping))"
    by (simp add: isWorkspaceTimedOut_def Let_def isPodBeingDeleted_def)
  have 9: "status_Phase ws = WorkspacePhaseRunning \<longrightarrow>
        isWorkspaceTimedOut now ws pod timeouts =
          (if MaxLifetime timeouts \<le> time_Since now (ws_CreationTimestamp ws) then
             Some (decide now (ws_CreationTimestamp ws) (MaxLifetime timeouts) activityMaxLifetime)
           else if status_Headless ws then
             Some (decide now (ws_CreationTimestamp ws)
                     (case spec_Timeout ws of Some ctv \<Rightarrow> ctv | None \<Rightarrow> HeadlessWorkspace timeouts)
                     activityRunningHeadless)
           else
             (case find (\<lambda>c. cond_Type c = WorkspaceConditionUserActivity) (status_Conditions ws) of
                None \<Rightarrow> Some (decide now (ws_CreationTimestamp ws) (TotalStartup timeouts) activityNone)
              | Some a \<Rightarrow>
                  if (\<exists>c \<in> set (status_Conditions ws).
                        cond_Type c = WorkspaceConditionClosed \<and> cond_Status c = ConditionTrue)
                  then Some (decide now (cond_LastTransitionTime a) (AfterClose timeouts) activityClosed)
                  else Some (decide now (cond_LastTransitionTime a)
                               (case spec_Timeout ws of Some ctv \<Rightarrow> ctv
                                | None \<Rightarrow> RegularWorkspace timeouts)
                               activityNone)))"
    by (rule impI) (rule running_rows)
  have nd: "status_Phase ws = WorkspacePhaseStopping \<and> pod_DeletionTimestamp p = None \<longrightarrow>
        isWorkspaceTimedOut now ws (Some p) timeouts = Some []"
    by (simp add: isWorkspaceTimedOut_def Let_def isPodBeingDeleted_def)
  have tm: "status_Phase ws = WorkspacePhaseStopped \<or> status_Phase ws = WorkspacePhaseUnknown
        \<or> status_Phase ws = WorkspacePhaseEmpty \<longrightarrow>
        isWorkspaceTimedOut now ws pod timeouts = Some []"
    by (auto simp add: isWorkspaceTimedOut_def Let_def)
  have d1: "decide (31 * Minute) 0 (30 * Minute) activityInit =
              ''workspace timed out after initialization (00h31m) took longer than 00h30m''"
    by code_simp
  have d2: "decide (31 * Minute) 0 (45 * Minute) activityInit = []"
    by code_simp
  have 10: "isWorkspaceTimedOut (31 * Minute) (example_workspace WorkspacePhasePending []) None example_timeouts =
        Some ''workspace timed out after initialization (00h31m) took longer than 00h30m''"
    by (simp add: isWorkspaceTimedOut_def Let_def example_workspace_def example_timeouts_def d1)
  have 11: "sublist ''31m'' ''workspace timed out after initialization (00h31m) took longer than 00h30m''"
    unfolding sublist_def
    by (rule exI[of _ "''workspace timed out after initialization (00h''"],
        rule exI[of _ "'') took longer than 00h30m''"]) simp
  have 12: "sublist ''30m'' ''workspace timed out after initialization (00h31m) took longer than 00h30m''"
    unfolding sublist_def
    by (rule exI[of _ "''workspace timed out after initialization (00h31m) took longer than 00h''"],
        rule exI[of _ "[]"]) simp
  have 13: "isWorkspaceTimedOut (31 * Minute) (example_workspace WorkspacePhasePending []) None
        (example_timeouts\<lparr> Initialization := 45 * Minute \<rparr>) = Some []"
    by (simp add: isWorkspaceTimedOut_def Let_def example_workspace_def example_timeouts_def d2)
  show ?thesis
    by (intro conjI 1 2 3 4 5 6 7 8 nd tm 9 10 11 12 13)
qed

theorem timeout_threshold_and_format_witness:
  "status_Phase (example_workspace WorkspacePhaseCreating []) = WorkspacePhaseCreating
   \<and> TotalStartup example_timeouts \<le> time_Since (61 * Minute + 40 * Second) 0
   \<and> time_Since (61 * Minute + 40 * Second) 0 = 61 * Minute + 40 * Second
   \<and> formatDuration (61 * Minute + 40 * Second) = ''01h02m''
   \<and> isWorkspaceTimedOut (61 * Minute + 40 * Second) (example_workspace WorkspacePhaseCreating [])
        None example_timeouts =
      Some ''workspace timed out after creating containers (01h02m) took longer than 01h00m''
   \<and> isWorkspaceTimedOut (Hour + 31 * Minute)
        (example_workspace WorkspacePhaseRunning [example_condition ''UserActivity'' ConditionTrue Hour []])
        None example_timeouts =
      Some ''workspace timed out after period of inactivity (00h31m) took longer than 00h30m''
   \<and> isWorkspaceTimedOut (Hour + 10 * Minute)
        (example_workspace WorkspacePhaseRunning [example_condition ''UserActivity'' ConditionTrue Hour []])
        None example_timeouts = Some []
   \<and> isWorkspaceTimedOut (Hour + 3 * Minute)
        (example_workspace WorkspacePhaseRunning
           [example_condition ''UserActivity'' ConditionTrue Hour [],
            example_condition ''Closed'' ConditionTrue (Hour + Minute) []])
        None example_timeouts =
      Some ''workspace timed out after after being closed (00h03m) took longer than 00h02m''"
proof -
  let ?now = "61 * Minute + 40 * Second"
  let ?w = "example_workspace WorkspacePhaseCreating []"
  note T = timeout_threshold_and_format[where now = ?now and start = 0
      and td = "TotalStartup example_timeouts" and act = activityCreatingContainers and d = ?now
      and ws = ?w and pod = None and timeouts = example_timeouts]
  have p: "status_Phase ?w = WorkspacePhaseCreating" and c: "ws_CreationTimestamp ?w = 0"
    by (simp_all add: example_workspace_def)
  have r: "minDuration \<le> ?now - 0 \<and> ?now - 0 \<le> maxDuration" by (simp add: duration_defs)
  have e: "time_Since ?now 0 = ?now" using T r by simp
  have le: "TotalStartup example_timeouts \<le> time_Since ?now 0"
    unfolding e by (simp add: example_timeouts_def duration_defs)
  have fr: "0 \<le> ?now \<and> ?now + Minute \<le> maxDuration" by (simp add: duration_defs)
  have "formatDuration ?now =
          fmt_02d ((?now + 30 * Second) div Minute div 60) @ ''h'' @
          fmt_02d ((?now + 30 * Second) div Minute mod 60) @ ''m''"
    using T fr by blast
  also have "\<dots> = ''01h02m''" by code_simp
  finally have f: "formatDuration ?now = ''01h02m''" .
  have f2: "formatDuration (TotalStartup example_timeouts) = ''01h00m''" by code_simp
  have "isWorkspaceTimedOut ?now ?w None example_timeouts =
          Some (decide ?now 0 (TotalStartup example_timeouts) activityCreatingContainers)"
    using T p c by simp
  moreover have "decide ?now 0 (TotalStartup example_timeouts) activityCreatingContainers =
      ''workspace timed out after '' @ activityCreatingContainers @ '' (''
        @ formatDuration (time_Since ?now 0) @ '') took longer than ''
        @ formatDuration (TotalStartup example_timeouts)"
    using T le by blast
  ultimately have creating: "isWorkspaceTimedOut ?now ?w None example_timeouts =
      Some ''workspace timed out after creating containers (01h02m) took longer than 01h00m''"
    using e f by (simp add: f2 activityCreatingContainers_def)
  let ?a = "example_condition ''UserActivity'' ConditionTrue Hour []"
  let ?cl = "example_condition ''Closed'' ConditionTrue (Hour + Minute) []"
  let ?w1 = "example_workspace WorkspacePhaseRunning [?a]"
  let ?w2 = "example_workspace WorkspacePhaseRunning [?a, ?cl]"
  have run: "status_Phase (example_workspace WorkspacePhaseRunning cs) = WorkspacePhaseRunning"
    and nh: "\<not> status_Headless (example_workspace WorkspacePhaseRunning cs)"
    and st: "spec_Timeout (example_workspace WorkspacePhaseRunning cs) = None"
    and cr: "ws_CreationTimestamp (example_workspace WorkspacePhaseRunning cs) = 0"
    and co: "status_Conditions (example_workspace WorkspacePhaseRunning cs) = cs" for cs
    by (simp_all add: example_workspace_def)
  have ml: "\<not> MaxLifetime example_timeouts \<le> time_Since (Hour + k * Minute) 0" if "0 \<le> k" "k \<le> 60" for k
    using that by (simp add: time_Since_def example_timeouts_def duration_defs)
  have fa: "find (\<lambda>c. cond_Type c = WorkspaceConditionUserActivity) (?a # cs) = Some ?a" for cs
    by (simp add: example_condition_def WorkspaceConditionUserActivity_def WorkspaceConditionClosed_def)
  have la: "cond_LastTransitionTime ?a = Hour" by (simp add: example_condition_def)
  have nc: "\<not> (\<exists>c \<in> set [?a]. cond_Type c = WorkspaceConditionClosed \<and> cond_Status c = ConditionTrue)"
    by (simp add: example_condition_def WorkspaceConditionUserActivity_def WorkspaceConditionClosed_def)
  have yc: "\<exists>c \<in> set [?a, ?cl]. cond_Type c = WorkspaceConditionClosed \<and> cond_Status c = ConditionTrue"
    by (simp add: example_condition_def WorkspaceConditionUserActivity_def WorkspaceConditionClosed_def)
  have rg: "RegularWorkspace example_timeouts = 30 * Minute"
    and ac: "AfterClose example_timeouts = 2 * Minute"
    by (simp_all add: example_timeouts_def)
  have d1: "decide (Hour + 31 * Minute) Hour (30 * Minute) activityNone =
      ''workspace timed out after period of inactivity (00h31m) took longer than 00h30m''"
    by code_simp
  have d2: "decide (Hour + 10 * Minute) Hour (30 * Minute) activityNone = []"
    by code_simp
  have d3: "decide (Hour + 3 * Minute) Hour (2 * Minute) activityClosed =
      ''workspace timed out after after being closed (00h03m) took longer than 00h02m''"
    by code_simp
  have inactive: "isWorkspaceTimedOut (Hour + 31 * Minute) ?w1 None example_timeouts =
      Some ''workspace timed out after period of inactivity (00h31m) took longer than 00h30m''"
    using timeout_threshold_and_format[where now = "Hour + 31 * Minute" and ws = ?w1 and pod = None
        and timeouts = example_timeouts, THEN conjunct2, THEN conjunct2, THEN conjunct2,
        THEN conjunct2, THEN conjunct2, THEN conjunct2, THEN conjunct2, THEN conjunct2,
        THEN conjunct2, THEN conjunct2, THEN conjunct1] ml[of 31]
    by (simp only: run nh st cr co fa la nc rg d1 if_True if_False option.case simp_thms)
  have active: "isWorkspaceTimedOut (Hour + 10 * Minute) ?w1 None example_timeouts = Some []"
    using timeout_threshold_and_format[where now = "Hour + 10 * Minute" and ws = ?w1 and pod = None
        and timeouts = example_timeouts, THEN conjunct2, THEN conjunct2, THEN conjunct2,
        THEN conjunct2, THEN conjunct2, THEN conjunct2, THEN conjunct2, THEN conjunct2,
        THEN conjunct2, THEN conjunct2, THEN conjunct1] ml[of 10]
    by (simp only: run nh st cr co fa la nc rg d2 if_True if_False option.case simp_thms)
  have closed: "isWorkspaceTimedOut (Hour + 3 * Minute) ?w2 None example_timeouts =
      Some ''workspace timed out after after being closed (00h03m) took longer than 00h02m''"
    using timeout_threshold_and_format[where now = "Hour + 3 * Minute" and ws = ?w2 and pod = None
        and timeouts = example_timeouts, THEN conjunct2, THEN conjunct2, THEN conjunct2,
        THEN conjunct2, THEN conjunct2, THEN conjunct2, THEN conjunct2, THEN conjunct2,
        THEN conjunct2, THEN conjunct2, THEN conjunct1] ml[of 3] yc
    by (simp only: run nh st cr co fa la ac d3 if_True if_False option.case simp_thms)
  show ?thesis
    using p le e f creating inactive active closed by (intro conjI)
qed

section \<open>Properties of the timeout reconciler\<close>

lemma Reconcile_GetOK_requeue:
  "RequeueAfter (out_result (Reconcile r now (GetOK ws) policy update)) = reconcileInterval r"
  by (simp add: Reconcile_def Let_def split: prod.splits option.splits)

text \<open>
  C8. The interval of the timeout reconciler is the heartbeat interval divided by two, in Go's
  integer division (four minutes give exactly two), and every pass that has read the workspace
  returns a result whose \<^verbatim>\<open>RequeueAfter\<close> is that interval, whatever the policy answers and
  whether the update succeeds or not.
\<close>

theorem requeue_after_half_heartbeat:
  "reconcileInterval (NewTimeoutReconciler cfg) = go_quot (HeartbeatInterval cfg) 2
   \<and> (0 \<le> HeartbeatInterval cfg \<longrightarrow>
        reconcileInterval (NewTimeoutReconciler cfg) = HeartbeatInterval cfg div 2)
   \<and> (HeartbeatInterval cfg = 4 * Minute \<longrightarrow>
        reconcileInterval (NewTimeoutReconciler cfg) = 2 * Minute)
   \<and> RequeueAfter (out_result (Reconcile r now (GetOK ws) policy update)) = reconcileInterval r
   \<and> RequeueAfter (out_result (Reconcile (NewTimeoutReconciler cfg) now (GetOK ws) policy update)) =
        go_quot (HeartbeatInterval cfg) 2"
proof -
  have 1: "reconcileInterval (NewTimeoutReconciler cfg) = go_quot (HeartbeatInterval cfg) 2"
    by (simp add: NewTimeoutReconciler_def Let_def)
  have 2: "0 \<le> HeartbeatInterval cfg \<longrightarrow>
        reconcileInterval (NewTimeoutReconciler cfg) = HeartbeatInterval cfg div 2"
    unfolding 1 by (simp add: go_quot_nonneg)
  have 3: "HeartbeatInterval cfg = 4 * Minute \<longrightarrow>
        reconcileInterval (NewTimeoutReconciler cfg) = 2 * Minute"
    unfolding 1 by (simp add: go_quot_def duration_defs)
  show ?thesis
    using 1 2 3 by (simp add: Reconcile_GetOK_requeue)
qed

theorem requeue_after_half_heartbeat_witness:
  "HeartbeatInterval \<lparr> Timeouts = example_timeouts, HeartbeatInterval = 4 * Minute \<rparr> = 4 * Minute
   \<and> RequeueAfter (out_result
        (Reconcile (NewTimeoutReconciler \<lparr> Timeouts = example_timeouts, HeartbeatInterval = 4 * Minute \<rparr>)
           (10 * Hour) (GetOK (example_workspace WorkspacePhaseRunning []))
           (\<lambda>w. (decide (10 * Hour) (ws_CreationTimestamp w) (8 * Hour) activityMaxLifetime, None))
           (\<lambda>w. None))) = 2 * Minute"
proof -
  let ?cfg = "\<lparr> Timeouts = example_timeouts, HeartbeatInterval = 4 * Minute \<rparr>"
  have h: "HeartbeatInterval ?cfg = 4 * Minute" by simp
  show ?thesis
    using requeue_after_half_heartbeat[of ?cfg "NewTimeoutReconciler ?cfg" "10 * Hour"
        "example_workspace WorkspacePhaseRunning []"
        "\<lambda>w. (decide (10 * Hour) (ws_CreationTimestamp w) (8 * Hour) activityMaxLifetime, None)"
        "\<lambda>w. None"] h
    by simp
qed

section \<open>Properties of the condition set\<close>

lemma AddUniqueCondition_other_types:
  "t \<noteq> cond_Type c \<Longrightarrow>
   filter (\<lambda>x. cond_Type x = t) (AddUniqueCondition cs c) = filter (\<lambda>x. cond_Type x = t) cs"
  by (induction cs) auto

lemma list_ex_filter_type:
  assumes "\<And>x. P x \<Longrightarrow> cond_Type x = t"
  shows "list_ex P cs = list_ex P (filter (\<lambda>x. cond_Type x = t) cs)"
  using assms by (induction cs) auto

lemma conditionPresentAndTrue_AddUniqueCondition:
  assumes "t \<noteq> cond_Type c"
  shows "conditionPresentAndTrue (AddUniqueCondition cs c) t = conditionPresentAndTrue cs t"
proof -
  let ?P = "\<lambda>c. cond_Type c = t \<and> cond_Status c = ConditionTrue"
  have "list_ex ?P (AddUniqueCondition cs c) =
          list_ex ?P (filter (\<lambda>x. cond_Type x = t) (AddUniqueCondition cs c))"
    by (rule list_ex_filter_type) simp
  also have "\<dots> = list_ex ?P (filter (\<lambda>x. cond_Type x = t) cs)"
    by (simp only: AddUniqueCondition_other_types[OF assms])
  also have "\<dots> = list_ex ?P cs"
    by (rule list_ex_filter_type[symmetric]) simp
  finally show ?thesis by (simp only: conditionPresentAndTrue_def)
qed

lemma conditionWithStatusAndReson_AddUniqueCondition:
  assumes "t \<noteq> cond_Type c"
  shows "conditionWithStatusAndReson (AddUniqueCondition cs c) t st rs =
           conditionWithStatusAndReson cs t st rs"
proof -
  let ?P = "\<lambda>c. cond_Type c = t \<and> cond_Status c = (if st then ConditionTrue else ConditionFalse)
                 \<and> cond_Reason c = rs"
  have "list_ex ?P (AddUniqueCondition cs c) =
          list_ex ?P (filter (\<lambda>x. cond_Type x = t) (AddUniqueCondition cs c))"
    by (rule list_ex_filter_type) simp
  also have "\<dots> = list_ex ?P (filter (\<lambda>x. cond_Type x = t) cs)"
    by (simp only: AddUniqueCondition_other_types[OF assms])
  also have "\<dots> = list_ex ?P cs"
    by (rule list_ex_filter_type[symmetric]) simp
  finally show ?thesis by (simp only: conditionWithStatusAndReson_def)
qed

lemmas condition_names =
  WorkspaceConditionDeployed_def WorkspaceConditionFailed_def WorkspaceConditionTimeout_def
  WorkspaceConditionBackupComplete_def WorkspaceConditionBackupFailure_def
  WorkspaceConditionContentReady_def WorkspaceConditionClosed_def
  WorkspaceConditionUserActivity_def

section \<open>Properties of the log scan\<close>

lemma extractFailureLoop_stop: "idx \<le> 0 \<Longrightarrow> extractFailureLoop u logs idx m = logs"
  by (simp add: extractFailureLoop.simps)

lemma bytes_LastIndex_absent: "sep \<notin> set s \<Longrightarrow> bytes_LastIndex s sep = - 1"
  by (induction s) (auto simp: Let_def)

lemma extractFailureFromLogs_no_newline:
  "newline \<notin> set logs \<Longrightarrow> extractFailureFromLogs u logs = logs"
  by (simp add: extractFailureFromLogs_def bytes_LastIndex_absent extractFailureLoop_stop)


























section \<open>Properties of the status reconciler\<close>

text \<open>
  A pass over one pod upserts the \<^verbatim>\<open>Deployed\<close> condition, then at most a \<^verbatim>\<open>Failed\<close> one: what
  the condition set says about any other type stays as it was.
\<close>

lemma single_pod_conditionPresentAndTrue:
  assumes "t \<noteq> WorkspaceConditionDeployed" and "t \<noteq> WorkspaceConditionFailed"
  shows "conditionPresentAndTrue (status_Conditions (updateWorkspaceStatus fin u now ws [pod])) t =
           conditionPresentAndTrue (status_Conditions ws) t"
  using assms
  by (simp add: updateWorkspaceStatus_def Let_def conditionPresentAndTrue_AddUniqueCondition
      split: option.splits)

lemma single_pod_conditionWithStatusAndReson:
  assumes "t \<noteq> WorkspaceConditionDeployed" and "t \<noteq> WorkspaceConditionFailed"
  shows "conditionWithStatusAndReson (status_Conditions (updateWorkspaceStatus fin u now ws [pod])) t st rs =
           conditionWithStatusAndReson (status_Conditions ws) t st rs"
  using assms
  by (simp add: updateWorkspaceStatus_def Let_def conditionWithStatusAndReson_AddUniqueCondition
      split: option.splits)

lemma single_pod_phase:
  "status_Phase (updateWorkspaceStatus fin u now ws [pod]) =
     phaseFromPod fin (updateWorkspaceStatus fin u now ws [pod]) pod"
  by (simp add: updateWorkspaceStatus_def Let_def phaseFromPod_def split: option.splits)

text \<open>
  C3. With one pod whose deletion timestamp is set, the phase after the pass is \<^verbatim>\<open>Stopping\<close> or
  \<^verbatim>\<open>Stopped\<close>. If the pod carries the disposal finalizer it is \<^verbatim>\<open>Stopped\<close> exactly when the
  condition set holds \<^verbatim>\<open>BackupComplete=True\<close>, or \<^verbatim>\<open>BackupFailure=True\<close>, or \<^verbatim>\<open>ContentReady\<close> with
  status \<open>False\<close> and reason \<^verbatim>\<open>InitializationFailure\<close>, and \<^verbatim>\<open>Stopping\<close> otherwise; without the
  finalizer it is \<^verbatim>\<open>Stopped\<close>, whatever the conditions are.
\<close>

theorem deleted_pod_phase:
  assumes "pod_DeletionTimestamp pod \<noteq> None"
  shows "status_Phase (updateWorkspaceStatus fin u now ws [pod]) =
           (if fin \<in> set (pod_Finalizers pod) then
              (if (\<exists>c \<in> set (status_Conditions ws).
                      cond_Type c = WorkspaceConditionBackupComplete \<and> cond_Status c = ConditionTrue)
                  \<or> (\<exists>c \<in> set (status_Conditions ws).
                      cond_Type c = WorkspaceConditionBackupFailure \<and> cond_Status c = ConditionTrue)
                  \<or> (\<exists>c \<in> set (status_Conditions ws).
                      cond_Type c = WorkspaceConditionContentReady \<and> cond_Status c = ConditionFalse
                      \<and> cond_Reason c = ''InitializationFailure'')
               then WorkspacePhaseStopped else WorkspacePhaseStopping)
            else WorkspacePhaseStopped)"
proof -
  let ?w = "updateWorkspaceStatus fin u now ws [pod]"
  have a: "conditionPresentAndTrue (status_Conditions ?w) WorkspaceConditionBackupComplete =
             conditionPresentAndTrue (status_Conditions ws) WorkspaceConditionBackupComplete"
    by (rule single_pod_conditionPresentAndTrue) (simp_all add: condition_names)
  have b: "conditionPresentAndTrue (status_Conditions ?w) WorkspaceConditionBackupFailure =
             conditionPresentAndTrue (status_Conditions ws) WorkspaceConditionBackupFailure"
    by (rule single_pod_conditionPresentAndTrue) (simp_all add: condition_names)
  have c: "conditionWithStatusAndReson (status_Conditions ?w) WorkspaceConditionContentReady False
             ''InitializationFailure'' =
           conditionWithStatusAndReson (status_Conditions ws) WorkspaceConditionContentReady False
             ''InitializationFailure''"
    by (rule single_pod_conditionWithStatusAndReson) (simp_all add: condition_names)
  have A: "conditionPresentAndTrue (status_Conditions ws) WorkspaceConditionBackupComplete \<longleftrightarrow>
      (\<exists>c \<in> set (status_Conditions ws).
          cond_Type c = WorkspaceConditionBackupComplete \<and> cond_Status c = ConditionTrue)"
    by (simp only: conditionPresentAndTrue_def list_ex_iff)
  have B: "conditionPresentAndTrue (status_Conditions ws) WorkspaceConditionBackupFailure \<longleftrightarrow>
      (\<exists>c \<in> set (status_Conditions ws).
          cond_Type c = WorkspaceConditionBackupFailure \<and> cond_Status c = ConditionTrue)"
    by (simp only: conditionPresentAndTrue_def list_ex_iff)
  have C: "conditionWithStatusAndReson (status_Conditions ws) WorkspaceConditionContentReady False
             ''InitializationFailure'' \<longleftrightarrow>
      (\<exists>c \<in> set (status_Conditions ws).
          cond_Type c = WorkspaceConditionContentReady \<and> cond_Status c = ConditionFalse
          \<and> cond_Reason c = ''InitializationFailure'')"
    by (simp only: conditionWithStatusAndReson_def list_ex_iff if_False)
  have F: "list_ex (\<lambda>f. f = fin) (pod_Finalizers pod) \<longleftrightarrow> fin \<in> set (pod_Finalizers pod)"
    by (simp add: list_ex_iff)
  have del: "isPodBeingDeleted pod" using assms by (simp add: isPodBeingDeleted_def)
  have "status_Phase ?w = phaseFromPod fin ?w pod" by (rule single_pod_phase)
  also have "\<dots> =
     (if list_ex (\<lambda>f. f = fin) (pod_Finalizers pod) then
        (if conditionPresentAndTrue (status_Conditions ?w) WorkspaceConditionBackupComplete
            \<or> conditionPresentAndTrue (status_Conditions ?w) WorkspaceConditionBackupFailure
            \<or> conditionWithStatusAndReson (status_Conditions ?w) WorkspaceConditionContentReady False
                 ''InitializationFailure''
         then WorkspacePhaseStopped else WorkspacePhaseStopping)
      else WorkspacePhaseStopped)"
    by (simp only: phaseFromPod_def del if_True Let_def)
  finally show ?thesis
    by (simp only: a b c A B C F)
qed

theorem deleted_pod_phase_witness:
  "status_Phase (updateWorkspaceStatus ''gitpod.io/finalizer'' decode_record 90
      (example_workspace WorkspacePhaseRunning [example_condition ''BackupComplete'' ConditionTrue 80 []])
      [example_pod (Some 70) [''gitpod.io/finalizer''] PodRunning []]) = WorkspacePhaseStopped
   \<and> status_Phase (updateWorkspaceStatus ''gitpod.io/finalizer'' decode_record 90
      (example_workspace WorkspacePhaseRunning [example_condition ''BackupComplete'' ConditionFalse 80 []])
      [example_pod (Some 70) [''gitpod.io/finalizer''] PodRunning []]) = WorkspacePhaseStopping
   \<and> status_Phase (updateWorkspaceStatus ''gitpod.io/finalizer'' decode_record 90
      (example_workspace WorkspacePhaseRunning [])
      [example_pod (Some 70) [] PodRunning []]) = WorkspacePhaseStopped"
proof -
  let ?p = "example_pod (Some 70) [''gitpod.io/finalizer''] PodRunning []"
  let ?q = "example_pod (Some 70) [] PodRunning []"
  have d: "pod_DeletionTimestamp ?p \<noteq> None" "pod_DeletionTimestamp ?q \<noteq> None"
    by (simp_all add: example_pod_def)
  show ?thesis
    using deleted_pod_phase[OF d(1), of "''gitpod.io/finalizer''" decode_record 90
            "example_workspace WorkspacePhaseRunning [example_condition ''BackupComplete'' ConditionTrue 80 []]"]
          deleted_pod_phase[OF d(1), of "''gitpod.io/finalizer''" decode_record 90
            "example_workspace WorkspacePhaseRunning [example_condition ''BackupComplete'' ConditionFalse 80 []]"]
          deleted_pod_phase[OF d(2), of "''gitpod.io/finalizer''" decode_record 90
            "example_workspace WorkspacePhaseRunning []"]
    by (simp add: example_pod_def example_workspace_def example_condition_def condition_names)
qed

text \<open>
  A pod that is not being deleted, with no reason and no message, whose one container is
  terminated with exit code 1 and the termination message \<^verbatim>\<open>boom\<close>: the failure extraction
  answers the failure text \<^verbatim>\<open>boom\<close> and the phase \<^verbatim>\<open>Running\<close>.
\<close>

lemma termination_message_extractFailure:
  "extractFailure u w
      (example_pod None [] ph
         [example_container \<lparr> st_Waiting = None, st_Running = False,
            st_Terminated = Some \<lparr> term_ExitCode = 1, term_Reason = ''Error'', term_Message = ''boom'' \<rparr> \<rparr>])
     = (''boom'', Some WorkspacePhaseRunning)"
proof -
  let ?cs = "example_container \<lparr> st_Waiting = None, st_Running = False,
     st_Terminated = Some \<lparr> term_ExitCode = 1, term_Reason = ''Error'', term_Message = ''boom'' \<rparr> \<rparr>"
  have l: "extractFailureFromLogs u ''boom'' = ''boom''"
    by (rule extractFailureFromLogs_no_newline) (simp add: newline_def)
  have t: "terminationFailure u w (example_pod None [] ph [?cs]) ?cs
             = Some (''boom'', Some WorkspacePhaseRunning)"
    by (simp add: terminationFailure_def example_container_def example_pod_def isPodBeingDeleted_def l)
  have i: "imagePullFailure (example_pod None [] ph [?cs]) ?cs = None"
    by (simp add: imagePullFailure_def example_container_def)
  have c: "pod_ContainerStatuses (example_pod None [] ph [?cs]) = [?cs]"
    and r: "pod_Reason (example_pod None [] ph [?cs]) = []"
    and m: "pod_Message (example_pod None [] ph [?cs]) = []"
    by (simp_all add: example_pod_def)
  show ?thesis
    by (simp add: extractFailure_def c r m t i)
qed

text \<open>
  C2 at a failing input. One pod that is not being deleted and has phase \<^verbatim>\<open>Failed\<close> with no
  reason and no message, whose container is terminated with exit code 1 and the termination
  message \<^verbatim>\<open>boom\<close>: the failure extraction answers the failure text \<^verbatim>\<open>boom\<close> and the phase
  \<^verbatim>\<open>Running\<close>, the \<^verbatim>\<open>Failed\<close> condition is committed with that
  text, and the phase after the pass is \<^verbatim>\<open>Unknown\<close>, because the closing \<^verbatim>\<open>switch\<close> assigns
  the phase again. The same container in a pod of phase \<^verbatim>\<open>Running\<close> with no ready container
  ends in \<^verbatim>\<open>Initializing\<close>.
\<close>

theorem termination_message_phase_overwritten:
  "status_Conditions (updateWorkspaceStatus fin u now (example_workspace WorkspacePhaseRunning [])
        [example_pod None [] PodFailed
           [example_container \<lparr> st_Waiting = None, st_Running = False,
              st_Terminated = Some \<lparr> term_ExitCode = 1, term_Reason = ''Error'', term_Message = ''boom'' \<rparr> \<rparr>]])
     = [example_condition ''Deployed'' ConditionTrue now [], example_condition ''Failed'' ConditionTrue now ''boom'']
   \<and> status_Phase (updateWorkspaceStatus fin u now (example_workspace WorkspacePhaseRunning [])
        [example_pod None [] PodFailed
           [example_container \<lparr> st_Waiting = None, st_Running = False,
              st_Terminated = Some \<lparr> term_ExitCode = 1, term_Reason = ''Error'', term_Message = ''boom'' \<rparr> \<rparr>]])
     = WorkspacePhaseUnknown
   \<and> status_Phase (updateWorkspaceStatus fin u now (example_workspace WorkspacePhaseRunning [])
        [example_pod None [] PodRunning
           [example_container \<lparr> st_Waiting = None, st_Running = False,
              st_Terminated = Some \<lparr> term_ExitCode = 1, term_Reason = ''Error'', term_Message = ''boom'' \<rparr> \<rparr>]])
     = WorkspacePhaseInitializing"
proof -
  let ?cs = "example_container \<lparr> st_Waiting = None, st_Running = False,
     st_Terminated = Some \<lparr> term_ExitCode = 1, term_Reason = ''Error'', term_Message = ''boom'' \<rparr> \<rparr>"
  note e = termination_message_extractFailure
  have p1: "phaseFromPod fin w (example_pod None [] PodFailed [?cs]) =
              (if status_Headless w then WorkspacePhaseStopping else WorkspacePhaseUnknown)" for w
    by (simp add: phaseFromPod_def example_pod_def isPodBeingDeleted_def)
  have p2: "phaseFromPod fin w (example_pod None [] PodRunning [?cs]) = WorkspacePhaseInitializing" for w
    by (simp add: phaseFromPod_def example_pod_def isPodBeingDeleted_def example_container_def)
  show ?thesis
    by (simp add: e p1 p2 updateWorkspaceStatus_def Let_def example_workspace_def example_condition_def
        conditionPresentAndTrue_def condition_names)
qed

text \<open>
  C1 at a failing input. A workspace that carries \<^verbatim>\<open>Failed=True\<close> with the message \<^verbatim>\<open>boom\<close>,
  reconciled against two pods: the branch for several pods upserts its own \<^verbatim>\<open>Failed\<close>
  condition without asking whether one is present, so the message and the transition time of
  the stored condition are overwritten.
\<close>

theorem multiple_pods_overwrite_failed:
  "conditionPresentAndTrue
      (status_Conditions (example_workspace WorkspacePhaseRunning
         [example_condition ''Failed'' ConditionTrue 1 ''boom''])) WorkspaceConditionFailed
   \<and> status_Conditions
        (updateWorkspaceStatus fin u 5
           (example_workspace WorkspacePhaseRunning [example_condition ''Failed'' ConditionTrue 1 ''boom''])
           [p1, p2])
      = [example_condition ''Failed'' ConditionTrue 5 ''multiple pods exists - this should never happen'']"
  by (simp add: updateWorkspaceStatus_def example_workspace_def example_condition_def
      conditionPresentAndTrue_def condition_names)

text \<open>
  What does hold of the latch. With no pod or one pod, a pass leaves every \<^verbatim>\<open>Failed\<close> condition
  of a workspace that carries \<^verbatim>\<open>Failed=True\<close> as it was; and a pass of the timeout reconciler
  over a workspace that carries \<^verbatim>\<open>Timeout=True\<close> updates nothing.
\<close>

lemma failed_latch_up_to_one_pod:
  assumes "conditionPresentAndTrue (status_Conditions ws) WorkspaceConditionFailed"
    and "length pods \<le> 1"
  shows "filter (\<lambda>c. cond_Type c = WorkspaceConditionFailed)
           (status_Conditions (updateWorkspaceStatus fin u now ws pods)) =
         filter (\<lambda>c. cond_Type c = WorkspaceConditionFailed) (status_Conditions ws)"
proof (cases pods)
  case Nil
  then show ?thesis by (simp add: updateWorkspaceStatus_def Let_def)
next
  case (Cons pod rest)
  then have pods: "pods = [pod]" using assms(2) by simp
  let ?d = "\<lparr> cond_Type = WorkspaceConditionDeployed, cond_Status = ConditionTrue,
      cond_LastTransitionTime = now, cond_Reason = [], cond_Message = [] \<rparr>"
  have ne: "WorkspaceConditionFailed \<noteq> cond_Type ?d" by (simp add: condition_names)
  have g: "conditionPresentAndTrue (AddUniqueCondition (status_Conditions ws) ?d) WorkspaceConditionFailed"
    using assms(1) conditionPresentAndTrue_AddUniqueCondition[OF ne] by simp
  have "status_Conditions (updateWorkspaceStatus fin u now ws [pod]) =
          AddUniqueCondition (status_Conditions ws) ?d"
    using g by (simp add: updateWorkspaceStatus_def Let_def split: option.splits)
  then show ?thesis
    unfolding pods using AddUniqueCondition_other_types[OF ne] by simp
qed

lemma timeout_latch:
  assumes "conditionPresentAndTrue (status_Conditions ws) WorkspaceConditionTimeout"
  shows "out_updated (Reconcile r now (GetOK ws) policy update) = None"
  using assms by (simp add: Reconcile_def Let_def split: prod.splits option.splits)

lemma updateWorkspaceStatus_frame:
  "updateWorkspaceStatus fin u now ws pods =
     ws\<lparr> status_Phase := status_Phase (updateWorkspaceStatus fin u now ws pods),
         status_Conditions := status_Conditions (updateWorkspaceStatus fin u now ws pods),
         status_Runtime := status_Runtime (updateWorkspaceStatus fin u now ws pods) \<rparr>"
proof (cases pods)
  case Nil
  then show ?thesis by (simp add: updateWorkspaceStatus_def Let_def)
next
  case (Cons pod rest)
  show ?thesis
  proof (cases rest)
    case Nil
    show ?thesis unfolding Cons Nil
      by (cases "snd (extractFailure u
            (ws\<lparr>status_Conditions := AddUniqueCondition (status_Conditions ws)
                  \<lparr>cond_Type = WorkspaceConditionDeployed, cond_Status = ConditionTrue,
                     cond_LastTransitionTime = now, cond_Reason = [], cond_Message = []\<rparr>,
                status_Runtime := Some (fillRuntime (status_Runtime ws) pod)\<rparr>) pod)")
        (simp_all add: updateWorkspaceStatus_def Let_def)
  next
    case (Cons p2 rest2)
    then show ?thesis unfolding \<open>pods = pod # rest\<close> by (simp add: updateWorkspaceStatus_def)
  qed
qed

lemma updateWorkspaceStatus_runtime:
  "status_Runtime (updateWorkspaceStatus fin u now ws pods) =
     (case pods of [pod] \<Rightarrow> Some (fillRuntime (status_Runtime ws) pod) | _ \<Rightarrow> status_Runtime ws)"
proof (cases pods)
  case Nil
  then show ?thesis by (simp add: updateWorkspaceStatus_def Let_def)
next
  case (Cons pod rest)
  show ?thesis
  proof (cases rest)
    case Nil
    show ?thesis unfolding Cons Nil
      by (cases "snd (extractFailure u
            (ws\<lparr>status_Conditions := AddUniqueCondition (status_Conditions ws)
                  \<lparr>cond_Type = WorkspaceConditionDeployed, cond_Status = ConditionTrue,
                     cond_LastTransitionTime = now, cond_Reason = [], cond_Message = []\<rparr>,
                status_Runtime := Some (fillRuntime (status_Runtime ws) pod)\<rparr>) pod)")
        (simp_all add: updateWorkspaceStatus_def Let_def)
  next
    case (Cons p2 rest2)
    then show ?thesis unfolding \<open>pods = pod # rest\<close> by (simp add: updateWorkspaceStatus_def)
  qed
qed

text \<open>
  C9, as the code has it. A pass of the status reconciler changes the phase, the condition set
  and the runtime snapshot of the workspace, and nothing else; the snapshot changes only with
  exactly one pod, each of its empty fields taking the pod's value (all four of them where the
  workspace had no snapshot) and each filled field keeping its own. A pass of the timeout reconciler hands to the update a workspace that
  differs from the one it read in the condition set alone, and updates nothing when the read
  failed.
\<close>

theorem reconcile_frame:
  "updateWorkspaceStatus fin u now ws pods =
     ws\<lparr> status_Phase := status_Phase (updateWorkspaceStatus fin u now ws pods),
         status_Conditions := status_Conditions (updateWorkspaceStatus fin u now ws pods),
         status_Runtime := status_Runtime (updateWorkspaceStatus fin u now ws pods) \<rparr>
   \<and> status_Runtime (updateWorkspaceStatus fin u now ws pods) =
       (case pods of [pod] \<Rightarrow> Some (fillRuntime (status_Runtime ws) pod) | _ \<Rightarrow> status_Runtime ws)
   \<and> (rt_NodeName rt \<noteq> [] \<longrightarrow> rt_NodeName (fillRuntime (Some rt) pod) = rt_NodeName rt)
   \<and> (rt_HostIP rt \<noteq> [] \<longrightarrow> rt_HostIP (fillRuntime (Some rt) pod) = rt_HostIP rt)
   \<and> (rt_PodIP rt \<noteq> [] \<longrightarrow> rt_PodIP (fillRuntime (Some rt) pod) = rt_PodIP rt)
   \<and> (rt_PodName rt \<noteq> [] \<longrightarrow> rt_PodName (fillRuntime (Some rt) pod) = rt_PodName rt)
   \<and> rt_NodeName (fillRuntime prev pod) =
       (case prev of None \<Rightarrow> pod_NodeName pod
        | Some x \<Rightarrow> if rt_NodeName x = [] then pod_NodeName pod else rt_NodeName x)
   \<and> rt_HostIP (fillRuntime prev pod) =
       (case prev of None \<Rightarrow> pod_HostIP pod
        | Some x \<Rightarrow> if rt_HostIP x = [] then pod_HostIP pod else rt_HostIP x)
   \<and> rt_PodIP (fillRuntime prev pod) =
       (case prev of None \<Rightarrow> pod_PodIP pod
        | Some x \<Rightarrow> if rt_PodIP x = [] then pod_PodIP pod else rt_PodIP x)
   \<and> rt_PodName (fillRuntime prev pod) =
       (case prev of None \<Rightarrow> pod_Name pod
        | Some x \<Rightarrow> if rt_PodName x = [] then pod_Name pod else rt_PodName x)
   \<and> (case out_updated (Reconcile r now (GetOK ws) policy update) of
         None \<Rightarrow> True
       | Some w' \<Rightarrow> w' = ws\<lparr> status_Conditions := status_Conditions w' \<rparr>)
   \<and> out_updated (Reconcile r now GetNotFound policy update) = None
   \<and> out_updated (Reconcile r now (GetError e) policy update) = None"
proof -
  note 1 = updateWorkspaceStatus_frame[of fin u now ws pods]
  note 2 = updateWorkspaceStatus_runtime[of fin u now ws pods]
  have 3: "rt_NodeName rt \<noteq> [] \<longrightarrow> rt_NodeName (fillRuntime (Some rt) pod) = rt_NodeName rt"
    and 4: "rt_HostIP rt \<noteq> [] \<longrightarrow> rt_HostIP (fillRuntime (Some rt) pod) = rt_HostIP rt"
    and 5: "rt_PodIP rt \<noteq> [] \<longrightarrow> rt_PodIP (fillRuntime (Some rt) pod) = rt_PodIP rt"
    and 6: "rt_PodName rt \<noteq> [] \<longrightarrow> rt_PodName (fillRuntime (Some rt) pod) = rt_PodName rt"
    by (simp_all add: fillRuntime_def Let_def)
  have f1: "rt_NodeName (fillRuntime prev pod) =
       (case prev of None \<Rightarrow> pod_NodeName pod
        | Some x \<Rightarrow> if rt_NodeName x = [] then pod_NodeName pod else rt_NodeName x)"
    and f2: "rt_HostIP (fillRuntime prev pod) =
       (case prev of None \<Rightarrow> pod_HostIP pod
        | Some x \<Rightarrow> if rt_HostIP x = [] then pod_HostIP pod else rt_HostIP x)"
    and f3: "rt_PodIP (fillRuntime prev pod) =
       (case prev of None \<Rightarrow> pod_PodIP pod
        | Some x \<Rightarrow> if rt_PodIP x = [] then pod_PodIP pod else rt_PodIP x)"
    and f4: "rt_PodName (fillRuntime prev pod) =
       (case prev of None \<Rightarrow> pod_Name pod
        | Some x \<Rightarrow> if rt_PodName x = [] then pod_Name pod else rt_PodName x)"
    by (simp_all add: fillRuntime_def Let_def emptyRuntime_def split: option.splits)
  have 7: "case out_updated (Reconcile r now (GetOK ws) policy update) of
         None \<Rightarrow> True
       | Some w' \<Rightarrow> w' = ws\<lparr> status_Conditions := status_Conditions w' \<rparr>"
    by (simp add: Reconcile_def Let_def split: prod.splits option.splits)
  have 8: "out_updated (Reconcile r now GetNotFound policy update) = None"
    and 9: "out_updated (Reconcile r now (GetError e) policy update) = None"
    by (simp_all add: Reconcile_def)
  show ?thesis
    by (intro conjI 1 2 3 4 5 6 f1 f2 f3 f4 7 8 9)
qed

theorem reconcile_frame_witness:
  "status_Runtime
     (updateWorkspaceStatus ''gitpod.io/finalizer'' decode_record 90
        ((example_workspace WorkspacePhasePending [])
           \<lparr> status_Runtime := Some (emptyRuntime\<lparr> rt_NodeName := ''node-0'' \<rparr>) \<rparr>)
        [example_pod None [] PodPending []])
     = Some \<lparr> rt_NodeName = ''node-0'', rt_HostIP = ''10.0.0.1'', rt_PodIP = ''10.1.0.7'',
              rt_PodName = ''ws-1-pod'' \<rparr>
   \<and> ws_CreationTimestamp
       (updateWorkspaceStatus ''gitpod.io/finalizer'' decode_record 90
          ((example_workspace WorkspacePhasePending [])
             \<lparr> status_Runtime := Some (emptyRuntime\<lparr> rt_NodeName := ''node-0'' \<rparr>) \<rparr>)
          [example_pod None [] PodPending []]) = 0"
proof -
  let ?w = "(example_workspace WorkspacePhasePending [])
              \<lparr> status_Runtime := Some (emptyRuntime\<lparr> rt_NodeName := ''node-0'' \<rparr>) \<rparr>"
  let ?p = "example_pod None [] PodPending []"
  let ?r = "updateWorkspaceStatus ''gitpod.io/finalizer'' decode_record 90 ?w [?p]"
  let ?prev = "emptyRuntime\<lparr> rt_NodeName := ''node-0'' \<rparr>"
  note F = reconcile_frame[where fin = "''gitpod.io/finalizer''" and u = decode_record and now = 90
      and ws = ?w and pods = "[?p]" and rt = ?prev and pod = ?p and prev = "Some ?prev"]
  have n: "rt_NodeName ?prev \<noteq> []" by simp
  have a: "status_Runtime ?r = Some (fillRuntime (status_Runtime ?w) ?p)" using F by simp
  have b: "rt_NodeName (fillRuntime (Some ?prev) ?p) = ''node-0''"
    using F n by simp
  have h: "rt_HostIP (fillRuntime (Some ?prev) ?p) = ''10.0.0.1''"
    and i: "rt_PodIP (fillRuntime (Some ?prev) ?p) = ''10.1.0.7''"
    and k: "rt_PodName (fillRuntime (Some ?prev) ?p) = ''ws-1-pod''"
    using F by (simp_all add: emptyRuntime_def example_pod_def)
  have c: "fillRuntime (Some ?prev) ?p =
      \<lparr> rt_NodeName = ''node-0'', rt_HostIP = ''10.0.0.1'', rt_PodIP = ''10.1.0.7'',
        rt_PodName = ''ws-1-pod'' \<rparr>"
    by (rule WorkspaceRuntimeStatus.equality) (simp_all add: b h i k)
  have s: "status_Runtime ?w = Some ?prev" by simp
  have eq: "?r = ?w\<lparr> status_Phase := status_Phase ?r, status_Conditions := status_Conditions ?r,
                status_Runtime := status_Runtime ?r \<rparr>"
    using F by (rule conjunct1)
  have "ws_CreationTimestamp ?r =
          ws_CreationTimestamp (?w\<lparr> status_Phase := status_Phase ?r,
            status_Conditions := status_Conditions ?r, status_Runtime := status_Runtime ?r \<rparr>)"
    by (rule arg_cong[OF eq])
  then have d: "ws_CreationTimestamp ?r = 0" by (simp add: example_workspace_def)
  show ?thesis using a c d by (simp only: s)
qed

text \<open>
  C9 as stated fails: a workspace without a runtime snapshot, reconciled against one pod, comes
  back with the snapshot filled in from the pod.
\<close>

theorem runtime_mutated_counterexample:
  "status_Runtime (example_workspace WorkspacePhasePending []) = None
   \<and> status_Runtime
       (updateWorkspaceStatus ''gitpod.io/finalizer'' decode_record 90
          (example_workspace WorkspacePhasePending []) [example_pod None [] PodPending []])
     = Some \<lparr> rt_NodeName = ''node-1'', rt_HostIP = ''10.0.0.1'', rt_PodIP = ''10.1.0.7'',
              rt_PodName = ''ws-1-pod'' \<rparr>"
  by (simp add: updateWorkspaceStatus_def Let_def example_workspace_def example_pod_def
      fillRuntime_def emptyRuntime_def split: option.splits)

end
